theory Spec2Isabelle
  imports Complex_Main "HOL-Library.Sublist"
begin

section \<open>The GenSen sentence-similarity notebook\<close>

text \<open>
  The program is \<^verbatim>\<open>examples/sentence_similarity/gensen_local.ipynb\<close>: a linear script of
  code cells, run top to bottom. It has one function of its own, \<^verbatim>\<open>clean_and_tokenize\<close>;
  everything else is a call of a function imported from elsewhere. The imported functions
  are not part of the notebook, so the model takes them as an environment: a record with
  one field per imported function. Each of them may read and change the world outside the
  notebook (files, the network, the GPU, the wrapper object's trained weights) and may raise
  an exception, so a collaborator is a function from the world to an outcome and a new world.
  The notebook has no \<^verbatim>\<open>try\<close>: an exception ends the cell it is raised in and the run
  with it. The one exception to that is the cell that calls \<^verbatim>\<open>clf.fit\<close>: its first line is the
  IPython magic \<^verbatim>\<open>%%time\<close>, which runs the rest of the cell itself and catches what it raises.

  Every call the notebook makes is appended to a trace, together with its arguments and its
  outcome, so that the order of the calls and the values passed between them can be stated.
\<close>

subsection \<open>Values\<close>

text \<open>The members of \<^verbatim>\<open>utils_nlp.dataset.Split\<close> that the notebook names.\<close>

datatype split = TRAIN | DEV | TEST

text \<open>An exception raised by a collaborator, with its message.\<close>

datatype error = Raised string

text \<open>
  The cell tagged \<^verbatim>\<open>parameters\<close>:
  \<^verbatim>\<open>
  max_epoch = None
  config_filepath = 'gensen_config.json'
  base_data_path = '../../data'
  nrows = None
  \<close>
  papermill replaces these values when it runs the notebook, so they are the run's input.
\<close>

record params =
  max_epoch :: "int option"
  config_filepath :: string
  base_data_path :: string
  nrows :: "int option"

definition default_params :: params where
  "default_params =
     \<lparr>max_epoch = None, config_filepath = ''gensen_config.json'',
      base_data_path = ''../../data'', nrows = None\<rparr>"

text \<open>The literal \<^verbatim>\<open>0.0001\<close> passed as \<^verbatim>\<open>learning_rate\<close>, as the decimal the source writes.\<close>

definition learning_rate :: rat where
  "learning_rate = 1 / 10000"

definition sentences :: "string list" where
  "sentences = [''The sky is blue and beautiful'', ''Love this blue and beautiful sky!'']"

definition banner :: string where
  "banner = ''******** Similarity Score for sentences **************''"

subsection \<open>Calls and their trace\<close>

text \<open>
  One constructor per function the notebook calls, holding the arguments as the notebook
  passes them and, for a collaborator, the outcome (\<open>Inl\<close> the exception, \<open>Inr\<close> the value
  returned). \<open>Print\<close> and \<open>Print_results\<close> are the builtin \<^verbatim>\<open>print\<close> on a string and on the
  value of \<^verbatim>\<open>results\<close>; \<open>Display\<close> is the value a cell shows because its last line is an
  expression (\<^verbatim>\<open>train.head()\<close>, \<^verbatim>\<open>dev.head()\<close>).
\<close>

datatype ('df, 'clf, 'res, 'dict) event =
    Print string
  | Print_results 'res
  | Display 'df
  | Load_pandas_df string split "int option" "error + 'df"
  | Clean_cols 'df "error + 'df"
  | Clean_rows 'df "error + 'df"
  | To_lowercase 'df "error + 'df"
  | To_nltk_tokens 'df "error + 'df"
  | Download_and_extract string "error + string"
  | GenSenClassifier_new string string rat string "int option" "error + 'clf"
  | Fit 'clf 'df 'df 'df "error + unit"
  | Predict 'clf "string list" "error + 'res"
  | Glue string 'dict "error + unit"

text \<open>
  The imported names. \<open>df_head\<close> and \<open>to_dict\<close> are the pandas methods \<^verbatim>\<open>DataFrame.head\<close> and
  \<^verbatim>\<open>DataFrame.to_dict\<close>, which compute a value from the frame and change nothing;
  \<open>sys_version\<close> is \<^verbatim>\<open>sys.version\<close>. \<open>GenSenClassifier\<close> takes the keyword arguments in the
  order the notebook writes them: \<^verbatim>\<open>config_file\<close>, \<^verbatim>\<open>pretrained_embedding_path\<close>,
  \<^verbatim>\<open>learning_rate\<close>, \<^verbatim>\<open>cache_dir\<close>, \<^verbatim>\<open>max_epoch\<close>.
\<close>

record ('df, 'clf, 'res, 'dict, 'w) env =
  sys_version :: string
  load_pandas_df :: "string \<Rightarrow> split \<Rightarrow> int option \<Rightarrow> 'w \<Rightarrow> (error + 'df) \<times> 'w"
  clean_cols :: "'df \<Rightarrow> 'w \<Rightarrow> (error + 'df) \<times> 'w"
  clean_rows :: "'df \<Rightarrow> 'w \<Rightarrow> (error + 'df) \<times> 'w"
  to_lowercase :: "'df \<Rightarrow> 'w \<Rightarrow> (error + 'df) \<times> 'w"
  to_nltk_tokens :: "'df \<Rightarrow> 'w \<Rightarrow> (error + 'df) \<times> 'w"
  df_head :: "'df \<Rightarrow> 'df"
  download_and_extract :: "string \<Rightarrow> 'w \<Rightarrow> (error + string) \<times> 'w"
  GenSenClassifier ::
    "string \<Rightarrow> string \<Rightarrow> rat \<Rightarrow> string \<Rightarrow> int option \<Rightarrow> 'w \<Rightarrow> (error + 'clf) \<times> 'w"
  fit :: "'clf \<Rightarrow> 'df \<Rightarrow> 'df \<Rightarrow> 'df \<Rightarrow> 'w \<Rightarrow> (error + unit) \<times> 'w"
  predict :: "'clf \<Rightarrow> string list \<Rightarrow> 'w \<Rightarrow> (error + 'res) \<times> 'w"
  to_dict :: "'res \<Rightarrow> 'dict"
  glue :: "string \<Rightarrow> 'dict \<Rightarrow> 'w \<Rightarrow> (error + unit) \<times> 'w"

text \<open>The state of a run: the world outside the notebook and the calls made so far.\<close>

record ('w, 'ev) nb_state =
  world :: 'w
  trace :: "'ev list"

definition init :: "'w \<Rightarrow> ('w, 'ev) nb_state" where
  "init w = \<lparr>world = w, trace = []\<rparr>"

text \<open>The global variables the notebook has bound when its last cell has run.\<close>

record ('df, 'clf, 'res) globals =
  train :: 'df
  dev :: 'df
  test :: 'df
  pretrained_embedding_path :: string
  clf :: 'clf
  results :: 'res

subsection \<open>Sequencing\<close>

text \<open>
  Statements run one after the other; an exception skips everything after it.
  \<open>call f ev\<close> runs the collaborator \<open>f\<close> on the world and records the call with its outcome;
  \<open>emit e\<close> records an output that cannot fail.
\<close>

definition ret :: "'a \<Rightarrow> 's \<Rightarrow> (error + 'a) \<times> 's" where
  "ret x s = (Inr x, s)"

definition bnd ::
  "('s \<Rightarrow> (error + 'a) \<times> 's) \<Rightarrow> ('a \<Rightarrow> 's \<Rightarrow> (error + 'b) \<times> 's) \<Rightarrow> 's \<Rightarrow> (error + 'b) \<times> 's" where
  "bnd m f s = (case m s of (Inl e, s') \<Rightarrow> (Inl e, s') | (Inr x, s') \<Rightarrow> f x s')"

definition call ::
  "('w \<Rightarrow> (error + 'a) \<times> 'w) \<Rightarrow> (error + 'a \<Rightarrow> 'ev) \<Rightarrow> ('w, 'ev) nb_state
     \<Rightarrow> (error + 'a) \<times> ('w, 'ev) nb_state" where
  "call f ev s =
     (case f (world s) of (r, w') \<Rightarrow> (r, \<lparr>world = w', trace = trace s @ [ev r]\<rparr>))"

definition emit :: "'ev \<Rightarrow> ('w, 'ev) nb_state \<Rightarrow> (error + unit) \<times> ('w, 'ev) nb_state" where
  "emit e s = (Inr (), \<lparr>world = world s, trace = trace s @ [e]\<rparr>)"

text \<open>
  A cell whose first line is \<^verbatim>\<open>%%time\<close>: IPython runs the body of the cell inside the magic.
  When the body returns, the magic prints the time it took; when the body raises, the magic
  catches the exception, shows the traceback and returns, so the cell ends normally and the
  cells after it still run. What the magic shows (the times, which are real time, or the
  traceback) is not recorded in the trace; the call made by the body is, with its outcome.
\<close>

definition time_magic ::
  "('s \<Rightarrow> (error + 'a) \<times> 's) \<Rightarrow> 's \<Rightarrow> (error + unit) \<times> 's" where
  "time_magic body s = (case body s of (Inl e, s') \<Rightarrow> (Inr (), s') | (Inr x, s') \<Rightarrow> (Inr (), s'))"


subsection \<open>The call expressions of the notebook\<close>

type_synonym ('df, 'clf, 'res, 'dict, 'w) st = "('w, ('df, 'clf, 'res, 'dict) event) nb_state"

definition py_print ::
  "string \<Rightarrow> ('df, 'clf, 'res, 'dict, 'w) st \<Rightarrow> (error + unit) \<times> ('df, 'clf, 'res, 'dict, 'w) st" where
  "py_print x = emit (Print x)"

definition py_print_results ::
  "'res \<Rightarrow> ('df, 'clf, 'res, 'dict, 'w) st \<Rightarrow> (error + unit) \<times> ('df, 'clf, 'res, 'dict, 'w) st" where
  "py_print_results r = emit (Print_results r)"

definition display ::
  "'df \<Rightarrow> ('df, 'clf, 'res, 'dict, 'w) st \<Rightarrow> (error + unit) \<times> ('df, 'clf, 'res, 'dict, 'w) st" where
  "display d = emit (Display d)"

definition snli_load_pandas_df ::
  "('df, 'clf, 'res, 'dict, 'w) env \<Rightarrow> string \<Rightarrow> split \<Rightarrow> int option
     \<Rightarrow> ('df, 'clf, 'res, 'dict, 'w) st \<Rightarrow> (error + 'df) \<times> ('df, 'clf, 'res, 'dict, 'w) st" where
  "snli_load_pandas_df E path file_split n =
     call (load_pandas_df E path file_split n) (Load_pandas_df path file_split n)"

definition snli_clean_cols ::
  "('df, 'clf, 'res, 'dict, 'w) env \<Rightarrow> 'df
     \<Rightarrow> ('df, 'clf, 'res, 'dict, 'w) st \<Rightarrow> (error + 'df) \<times> ('df, 'clf, 'res, 'dict, 'w) st" where
  "snli_clean_cols E df = call (clean_cols E df) (Clean_cols df)"

definition snli_clean_rows ::
  "('df, 'clf, 'res, 'dict, 'w) env \<Rightarrow> 'df
     \<Rightarrow> ('df, 'clf, 'res, 'dict, 'w) st \<Rightarrow> (error + 'df) \<times> ('df, 'clf, 'res, 'dict, 'w) st" where
  "snli_clean_rows E df = call (clean_rows E df) (Clean_rows df)"

definition preprocess_to_lowercase ::
  "('df, 'clf, 'res, 'dict, 'w) env \<Rightarrow> 'df
     \<Rightarrow> ('df, 'clf, 'res, 'dict, 'w) st \<Rightarrow> (error + 'df) \<times> ('df, 'clf, 'res, 'dict, 'w) st" where
  "preprocess_to_lowercase E df = call (to_lowercase E df) (To_lowercase df)"

definition preprocess_to_nltk_tokens ::
  "('df, 'clf, 'res, 'dict, 'w) env \<Rightarrow> 'df
     \<Rightarrow> ('df, 'clf, 'res, 'dict, 'w) st \<Rightarrow> (error + 'df) \<times> ('df, 'clf, 'res, 'dict, 'w) st" where
  "preprocess_to_nltk_tokens E df = call (to_nltk_tokens E df) (To_nltk_tokens df)"

definition glove_download_and_extract ::
  "('df, 'clf, 'res, 'dict, 'w) env \<Rightarrow> string
     \<Rightarrow> ('df, 'clf, 'res, 'dict, 'w) st \<Rightarrow> (error + string) \<times> ('df, 'clf, 'res, 'dict, 'w) st" where
  "glove_download_and_extract E path = call (download_and_extract E path) (Download_and_extract path)"

definition new_GenSenClassifier ::
  "('df, 'clf, 'res, 'dict, 'w) env \<Rightarrow> string \<Rightarrow> string \<Rightarrow> rat \<Rightarrow> string \<Rightarrow> int option
     \<Rightarrow> ('df, 'clf, 'res, 'dict, 'w) st \<Rightarrow> (error + 'clf) \<times> ('df, 'clf, 'res, 'dict, 'w) st" where
  "new_GenSenClassifier E config_file emb lr cache_dir me =
     call (GenSenClassifier E config_file emb lr cache_dir me)
       (GenSenClassifier_new config_file emb lr cache_dir me)"

definition clf_fit ::
  "('df, 'clf, 'res, 'dict, 'w) env \<Rightarrow> 'clf \<Rightarrow> 'df \<Rightarrow> 'df \<Rightarrow> 'df
     \<Rightarrow> ('df, 'clf, 'res, 'dict, 'w) st \<Rightarrow> (error + unit) \<times> ('df, 'clf, 'res, 'dict, 'w) st" where
  "clf_fit E c tr dv te = call (fit E c tr dv te) (Fit c tr dv te)"

definition clf_predict ::
  "('df, 'clf, 'res, 'dict, 'w) env \<Rightarrow> 'clf \<Rightarrow> string list
     \<Rightarrow> ('df, 'clf, 'res, 'dict, 'w) st \<Rightarrow> (error + 'res) \<times> ('df, 'clf, 'res, 'dict, 'w) st" where
  "clf_predict E c xs = call (predict E c xs) (Predict c xs)"

definition sb_glue ::
  "('df, 'clf, 'res, 'dict, 'w) env \<Rightarrow> string \<Rightarrow> 'dict
     \<Rightarrow> ('df, 'clf, 'res, 'dict, 'w) st \<Rightarrow> (error + unit) \<times> ('df, 'clf, 'res, 'dict, 'w) st" where
  "sb_glue E name d = call (glue E name d) (Glue name d)"

subsection \<open>The notebook's function\<close>

text \<open>
  \<^verbatim>\<open>
  def clean_and_tokenize(df):
      df = snli.clean_cols(df)
      df = snli.clean_rows(df)
      df = preprocess.to_lowercase(df)
      df = preprocess.to_nltk_tokens(df)
      return df
  \<close>
\<close>

definition clean_and_tokenize ::
  "('df, 'clf, 'res, 'dict, 'w) env \<Rightarrow> 'df
     \<Rightarrow> ('df, 'clf, 'res, 'dict, 'w) st \<Rightarrow> (error + 'df) \<times> ('df, 'clf, 'res, 'dict, 'w) st" where
  "clean_and_tokenize E df0 =
     bnd (snli_clean_cols E df0) (\<lambda>df1.
     bnd (snli_clean_rows E df1) (\<lambda>df2.
     bnd (preprocess_to_lowercase E df2) (\<lambda>df3.
     bnd (preprocess_to_nltk_tokens E df3) (\<lambda>df4.
     ret df4))))"

subsection \<open>The cells\<close>

text \<open>
  The import cell binds the imported names (here: the fields of the environment) and prints
  the interpreter's version.
\<close>

definition cell_imports ::
  "('df, 'clf, 'res, 'dict, 'w) env
     \<Rightarrow> ('df, 'clf, 'res, 'dict, 'w) st \<Rightarrow> (error + unit) \<times> ('df, 'clf, 'res, 'dict, 'w) st" where
  "cell_imports E = py_print (''System version: '' @ sys_version E)"

text \<open>
  \<^verbatim>\<open>
  train = snli.load_pandas_df(base_data_path, file_split=Split.TRAIN, nrows=nrows)
  dev = snli.load_pandas_df(base_data_path, file_split=Split.DEV, nrows=nrows)
  test = snli.load_pandas_df(base_data_path, file_split=Split.TEST, nrows=nrows)

  train.head()
  \<close>
\<close>

definition cell_load ::
  "('df, 'clf, 'res, 'dict, 'w) env \<Rightarrow> params
     \<Rightarrow> ('df, 'clf, 'res, 'dict, 'w) st
     \<Rightarrow> (error + 'df \<times> 'df \<times> 'df) \<times> ('df, 'clf, 'res, 'dict, 'w) st" where
  "cell_load E p =
     bnd (snli_load_pandas_df E (base_data_path p) TRAIN (nrows p)) (\<lambda>tr.
     bnd (snli_load_pandas_df E (base_data_path p) DEV (nrows p)) (\<lambda>dv.
     bnd (snli_load_pandas_df E (base_data_path p) TEST (nrows p)) (\<lambda>te.
     bnd (display (df_head E tr)) (\<lambda>_.
     ret (tr, dv, te)))))"

text \<open>
  \<^verbatim>\<open>
  train = clean_and_tokenize(train)
  dev = clean_and_tokenize(dev)
  test = clean_and_tokenize(test)
  \<close>
\<close>

definition cell_tokenize ::
  "('df, 'clf, 'res, 'dict, 'w) env \<Rightarrow> 'df \<Rightarrow> 'df \<Rightarrow> 'df
     \<Rightarrow> ('df, 'clf, 'res, 'dict, 'w) st
     \<Rightarrow> (error + 'df \<times> 'df \<times> 'df) \<times> ('df, 'clf, 'res, 'dict, 'w) st" where
  "cell_tokenize E tr0 dv0 te0 =
     bnd (clean_and_tokenize E tr0) (\<lambda>tr.
     bnd (clean_and_tokenize E dv0) (\<lambda>dv.
     bnd (clean_and_tokenize E te0) (\<lambda>te.
     ret (tr, dv, te))))"

text \<open>\<^verbatim>\<open>dev.head()\<close>\<close>

definition cell_dev_head ::
  "('df, 'clf, 'res, 'dict, 'w) env \<Rightarrow> 'df
     \<Rightarrow> ('df, 'clf, 'res, 'dict, 'w) st \<Rightarrow> (error + unit) \<times> ('df, 'clf, 'res, 'dict, 'w) st" where
  "cell_dev_head E dv = display (df_head E dv)"

text \<open>\<^verbatim>\<open>pretrained_embedding_path = download_and_extract(base_data_path)\<close>\<close>

definition cell_download ::
  "('df, 'clf, 'res, 'dict, 'w) env \<Rightarrow> params
     \<Rightarrow> ('df, 'clf, 'res, 'dict, 'w) st \<Rightarrow> (error + string) \<times> ('df, 'clf, 'res, 'dict, 'w) st" where
  "cell_download E p = glove_download_and_extract E (base_data_path p)"

text \<open>
  \<^verbatim>\<open>
  clf = GenSenClassifier(config_file = config_filepath,
                         pretrained_embedding_path = pretrained_embedding_path,
                         learning_rate = 0.0001,
                         cache_dir=base_data_path,
                        max_epoch=max_epoch)
  \<close>
\<close>

definition cell_init ::
  "('df, 'clf, 'res, 'dict, 'w) env \<Rightarrow> params \<Rightarrow> string
     \<Rightarrow> ('df, 'clf, 'res, 'dict, 'w) st \<Rightarrow> (error + 'clf) \<times> ('df, 'clf, 'res, 'dict, 'w) st" where
  "cell_init E p emb =
     new_GenSenClassifier E (config_filepath p) emb learning_rate (base_data_path p) (max_epoch p)"

text \<open>
  \<^verbatim>\<open>
  %%time
  clf.fit(train, dev, test)
  \<close>
\<close>

definition cell_fit ::
  "('df, 'clf, 'res, 'dict, 'w) env \<Rightarrow> 'clf \<Rightarrow> 'df \<Rightarrow> 'df \<Rightarrow> 'df
     \<Rightarrow> ('df, 'clf, 'res, 'dict, 'w) st \<Rightarrow> (error + unit) \<times> ('df, 'clf, 'res, 'dict, 'w) st" where
  "cell_fit E c tr dv te = time_magic (clf_fit E c tr dv te)"

text \<open>
  \<^verbatim>\<open>
  sentences = [
          'The sky is blue and beautiful',
          'Love this blue and beautiful sky!'
      ]

  results = clf.predict(sentences)
  print("******** Similarity Score for sentences **************")
  print(results)

  # Record results with scrapbook for tests
  sb.glue("results", results.to_dict())
  \<close>
\<close>

definition cell_predict ::
  "('df, 'clf, 'res, 'dict, 'w) env \<Rightarrow> 'clf
     \<Rightarrow> ('df, 'clf, 'res, 'dict, 'w) st \<Rightarrow> (error + 'res) \<times> ('df, 'clf, 'res, 'dict, 'w) st" where
  "cell_predict E c =
     bnd (clf_predict E c sentences) (\<lambda>res.
     bnd (py_print banner) (\<lambda>_.
     bnd (py_print_results res) (\<lambda>_.
     bnd (sb_glue E ''results'' (to_dict E res)) (\<lambda>_.
     ret res))))"

text \<open>The whole notebook: the code cells in the order of the document.\<close>

definition notebook ::
  "('df, 'clf, 'res, 'dict, 'w) env \<Rightarrow> params
     \<Rightarrow> ('df, 'clf, 'res, 'dict, 'w) st
     \<Rightarrow> (error + ('df, 'clf, 'res) globals) \<times> ('df, 'clf, 'res, 'dict, 'w) st" where
  "notebook E p =
     bnd (cell_imports E) (\<lambda>_.
     bnd (cell_load E p) (\<lambda>(tr0, dv0, te0).
     bnd (cell_tokenize E tr0 dv0 te0) (\<lambda>(tr, dv, te).
     bnd (cell_dev_head E dv) (\<lambda>_.
     bnd (cell_download E p) (\<lambda>emb.
     bnd (cell_init E p emb) (\<lambda>c.
     bnd (cell_fit E c tr dv te) (\<lambda>_.
     bnd (cell_predict E c) (\<lambda>res.
     ret \<lparr>train = tr, dev = dv, test = te, pretrained_embedding_path = emb,
          clf = c, results = res\<rparr>))))))))"

subsection \<open>Reading a trace\<close>

text \<open>Which function a recorded call is a call of.\<close>

datatype call_kind =
    K_print | K_print_results | K_display | K_load_pandas_df | K_clean_cols | K_clean_rows
  | K_to_lowercase | K_to_nltk_tokens | K_download_and_extract | K_GenSenClassifier
  | K_fit | K_predict | K_glue

fun kind :: "('df, 'clf, 'res, 'dict) event \<Rightarrow> call_kind" where
  "kind (Print _) = K_print"
| "kind (Print_results _) = K_print_results"
| "kind (Display _) = K_display"
| "kind (Load_pandas_df _ _ _ _) = K_load_pandas_df"
| "kind (Clean_cols _ _) = K_clean_cols"
| "kind (Clean_rows _ _) = K_clean_rows"
| "kind (To_lowercase _ _) = K_to_lowercase"
| "kind (To_nltk_tokens _ _) = K_to_nltk_tokens"
| "kind (Download_and_extract _ _) = K_download_and_extract"
| "kind (GenSenClassifier_new _ _ _ _ _ _) = K_GenSenClassifier"
| "kind (Fit _ _ _ _ _) = K_fit"
| "kind (Predict _ _ _) = K_predict"
| "kind (Glue _ _ _) = K_glue"

text \<open>A recorded call succeeded when it returned: its outcome is not an exception.\<close>

fun succeeded :: "('df, 'clf, 'res, 'dict) event \<Rightarrow> bool" where
  "succeeded (Print _) = True"
| "succeeded (Print_results _) = True"
| "succeeded (Display _) = True"
| "succeeded (Load_pandas_df _ _ _ r) = (\<not> isl r)"
| "succeeded (Clean_cols _ r) = (\<not> isl r)"
| "succeeded (Clean_rows _ r) = (\<not> isl r)"
| "succeeded (To_lowercase _ r) = (\<not> isl r)"
| "succeeded (To_nltk_tokens _ r) = (\<not> isl r)"
| "succeeded (Download_and_extract _ r) = (\<not> isl r)"
| "succeeded (GenSenClassifier_new _ _ _ _ _ r) = (\<not> isl r)"
| "succeeded (Fit _ _ _ _ r) = (\<not> isl r)"
| "succeeded (Predict _ _ r) = (\<not> isl r)"
| "succeeded (Glue _ _ r) = (\<not> isl r)"

text \<open>
  The kinds of the calls in the order in which the text of the notebook makes them: the
  body of \<^verbatim>\<open>clean_and_tokenize\<close>, and the cells from first to last.
\<close>

definition clean_and_tokenize_kinds :: "call_kind list" where
  "clean_and_tokenize_kinds = [K_clean_cols, K_clean_rows, K_to_lowercase, K_to_nltk_tokens]"

definition notebook_kinds :: "call_kind list" where
  "notebook_kinds =
     [K_print, K_load_pandas_df, K_load_pandas_df, K_load_pandas_df, K_display]
     @ clean_and_tokenize_kinds @ clean_and_tokenize_kinds @ clean_and_tokenize_kinds
     @ [K_display, K_download_and_extract, K_GenSenClassifier, K_fit, K_predict,
        K_print, K_print_results, K_glue]"

text \<open>
  An exception of \<^verbatim>\<open>fit\<close> is caught by \<^verbatim>\<open>%%time\<close>; an exception of any other call ends the run.
\<close>

definition returned_or_fit :: "('df, 'clf, 'res, 'dict) event \<Rightarrow> bool" where
  "returned_or_fit e \<longleftrightarrow> succeeded e \<or> kind e = K_fit"

text \<open>
  \<open>performs m ks\<close>: from every state, the calls that \<open>m\<close> adds to the trace are, by kind, an
  initial part of \<open>ks\<close>, and all of \<open>ks\<close> when \<open>m\<close> returns; every call but the last has
  returned or is the call of \<^verbatim>\<open>fit\<close>, and the last one too when \<open>m\<close> returns.
\<close>

definition performs ::
  "(('df, 'clf, 'res, 'dict, 'w) st \<Rightarrow> (error + 'a) \<times> ('df, 'clf, 'res, 'dict, 'w) st)
     \<Rightarrow> call_kind list \<Rightarrow> bool" where
  "performs m ks \<longleftrightarrow>
     (\<forall>s. \<exists>es. trace (snd (m s)) = trace s @ es \<and> prefix (map kind es) ks \<and>
            list_all returned_or_fit (butlast es) \<and>
            (isl (fst (m s)) \<or> (map kind es = ks \<and> list_all returned_or_fit es)))"

text \<open>
  Replaying a trace on a world. A recorded call of a collaborator is replayed by running
  the collaborator on the world, with the arguments recorded: the result is the world it
  leaves, if its outcome is the one recorded, and nothing otherwise. Output leaves the world
  as it is. A trace replays from \<open>w\<close> to \<open>w'\<close> when its calls, made one after the other from
  \<open>w\<close>, have the outcomes recorded and leave \<open>w'\<close>.
\<close>

definition recorded :: "'r \<times> 'w \<Rightarrow> 'r \<Rightarrow> 'w option" where
  "recorded out r = (if fst out = r then Some (snd out) else None)"

fun replay_call ::
  "('df, 'clf, 'res, 'dict, 'w) env \<Rightarrow> ('df, 'clf, 'res, 'dict) event \<Rightarrow> 'w \<Rightarrow> 'w option" where
  "replay_call E (Print t) w = Some w"
| "replay_call E (Print_results res) w = Some w"
| "replay_call E (Display d) w = Some w"
| "replay_call E (Load_pandas_df path sp n r) w = recorded (load_pandas_df E path sp n w) r"
| "replay_call E (Clean_cols d r) w = recorded (clean_cols E d w) r"
| "replay_call E (Clean_rows d r) w = recorded (clean_rows E d w) r"
| "replay_call E (To_lowercase d r) w = recorded (to_lowercase E d w) r"
| "replay_call E (To_nltk_tokens d r) w = recorded (to_nltk_tokens E d w) r"
| "replay_call E (Download_and_extract path r) w = recorded (download_and_extract E path w) r"
| "replay_call E (GenSenClassifier_new cfg emb lr cache me r) w =
     recorded (GenSenClassifier E cfg emb lr cache me w) r"
| "replay_call E (Fit c tr dv te r) w = recorded (fit E c tr dv te w) r"
| "replay_call E (Predict c xs r) w = recorded (predict E c xs w) r"
| "replay_call E (Glue name d r) w = recorded (glue E name d w) r"

fun replay ::
  "('df, 'clf, 'res, 'dict, 'w) env \<Rightarrow> ('df, 'clf, 'res, 'dict) event list \<Rightarrow> 'w \<Rightarrow> 'w option" where
  "replay E [] w = Some w"
| "replay E (e # es) w = (case replay_call E e w of None \<Rightarrow> None | Some w' \<Rightarrow> replay E es w')"

text \<open>
  \<open>faithful E m\<close>: from every state, the calls that \<open>m\<close> adds to the trace replay from the
  world \<open>m\<close> started in to the world it leaves: every call recorded was made, in this
  order, and nothing else changed the world.
\<close>

definition faithful ::
  "('df, 'clf, 'res, 'dict, 'w) env
     \<Rightarrow> (('df, 'clf, 'res, 'dict, 'w) st \<Rightarrow> (error + 'a) \<times> ('df, 'clf, 'res, 'dict, 'w) st)
     \<Rightarrow> bool" where
  "faithful E m \<longleftrightarrow>
     (\<forall>s. \<exists>es. trace (snd (m s)) = trace s @ es \<and>
            replay E es (world s) = Some (world (snd (m s))))"

text \<open>The calls of one completed \<^verbatim>\<open>clean_and_tokenize\<close>, given the frames passed along.\<close>

definition tokenize_events ::
  "'df \<Rightarrow> 'df \<Rightarrow> 'df \<Rightarrow> 'df \<Rightarrow> 'df \<Rightarrow> ('df, 'clf, 'res, 'dict) event list" where
  "tokenize_events d0 d1 d2 d3 d4 =
     [Clean_cols d0 (Inr d1), Clean_rows d1 (Inr d2), To_lowercase d2 (Inr d3),
      To_nltk_tokens d3 (Inr d4)]"

text \<open>
  The calls of a run of the notebook that reached its end, given the parameters, the final
  global variables, the frames that passed between the calls (for each split the frame
  loaded and the frames after \<^verbatim>\<open>clean_cols\<close>, \<^verbatim>\<open>clean_rows\<close> and \<^verbatim>\<open>to_lowercase\<close>) and the
  outcome \<open>r\<close> of \<^verbatim>\<open>fit\<close>.
\<close>

definition completed_trace ::
  "('df, 'clf, 'res, 'dict, 'w) env \<Rightarrow> params \<Rightarrow> ('df, 'clf, 'res) globals
     \<Rightarrow> 'df \<times> 'df \<times> 'df \<times> 'df \<Rightarrow> 'df \<times> 'df \<times> 'df \<times> 'df \<Rightarrow> 'df \<times> 'df \<times> 'df \<times> 'df
     \<Rightarrow> error + unit \<Rightarrow> ('df, 'clf, 'res, 'dict) event list" where
  "completed_trace E p g a b c r =
     (case (a, b, c) of ((tr0, tr1, tr2, tr3), (dv0, dv1, dv2, dv3), (te0, te1, te2, te3)) \<Rightarrow>
       [Print (''System version: '' @ sys_version E),
        Load_pandas_df (base_data_path p) TRAIN (nrows p) (Inr tr0),
        Load_pandas_df (base_data_path p) DEV (nrows p) (Inr dv0),
        Load_pandas_df (base_data_path p) TEST (nrows p) (Inr te0),
        Display (df_head E tr0)]
       @ tokenize_events tr0 tr1 tr2 tr3 (train g)
       @ tokenize_events dv0 dv1 dv2 dv3 (dev g)
       @ tokenize_events te0 te1 te2 te3 (test g)
       @ [Display (df_head E (dev g)),
          Download_and_extract (base_data_path p) (Inr (pretrained_embedding_path g)),
          GenSenClassifier_new (config_filepath p) (pretrained_embedding_path g) learning_rate
            (base_data_path p) (max_epoch p) (Inr (clf g)),
          Fit (clf g) (train g) (dev g) (test g) r,
          Predict (clf g) sentences (Inr (results g)),
          Print banner,
          Print_results (results g),
          Glue ''results'' (to_dict E (results g)) (Inr ())])"

subsection \<open>The stages of the run\<close>

text \<open>
  The five stages the specification names, with the fourth split into its two calls:
  loading the dataset, tokenizing and cleaning, instantiating the wrapper, \<^verbatim>\<open>fit\<close>,
  \<^verbatim>\<open>predict\<close>, and reporting the metric (printing \<^verbatim>\<open>results\<close> and recording it with
  scrapbook). Printing a line of text, showing the head of a frame and downloading the
  word vectors belong to none of them.
\<close>

datatype stage =
  Load_dataset | Tokenize_clean | Instantiate_wrapper | Call_fit | Call_predict | Report_metric

fun stage_of_kind :: "call_kind \<Rightarrow> stage option" where
  "stage_of_kind K_load_pandas_df = Some Load_dataset"
| "stage_of_kind K_clean_cols = Some Tokenize_clean"
| "stage_of_kind K_clean_rows = Some Tokenize_clean"
| "stage_of_kind K_to_lowercase = Some Tokenize_clean"
| "stage_of_kind K_to_nltk_tokens = Some Tokenize_clean"
| "stage_of_kind K_GenSenClassifier = Some Instantiate_wrapper"
| "stage_of_kind K_fit = Some Call_fit"
| "stage_of_kind K_predict = Some Call_predict"
| "stage_of_kind K_print_results = Some Report_metric"
| "stage_of_kind K_glue = Some Report_metric"
| "stage_of_kind K_print = None"
| "stage_of_kind K_display = None"
| "stage_of_kind K_download_and_extract = None"

text \<open>
  The stages a trace goes through: the stage of each call, with a run of calls of the same
  stage counted once. A stage that is entered again after another one appears twice.
\<close>

definition stages_of_kinds :: "call_kind list \<Rightarrow> stage list" where
  "stages_of_kinds ks = remdups_adj (List.map_filter stage_of_kind ks)"

definition stages :: "('df, 'clf, 'res, 'dict) event list \<Rightarrow> stage list" where
  "stages es = stages_of_kinds (map kind es)"

definition all_stages :: "stage list" where
  "all_stages =
     [Load_dataset, Tokenize_clean, Instantiate_wrapper, Call_fit, Call_predict, Report_metric]"

text \<open>
  The same call by call: the stage of every call that belongs to a stage, in the order of
  the trace, and what the text of the notebook makes of it: three loads, the four cleaning
  and tokenizing calls for each of the three frames, the construction, \<^verbatim>\<open>fit\<close>, \<^verbatim>\<open>predict\<close>,
  and the two reports (printing the result and recording it).
\<close>

definition stage_calls :: "('df, 'clf, 'res, 'dict) event list \<Rightarrow> stage list" where
  "stage_calls es = List.map_filter stage_of_kind (map kind es)"

definition stage_plan :: "stage list" where
  "stage_plan =
     replicate 3 Load_dataset @ replicate 12 Tokenize_clean
     @ [Instantiate_wrapper, Call_fit, Call_predict, Report_metric, Report_metric]"

subsection \<open>The collaborators named by the specification\<close>

text \<open>
  The specification names three collaborators: the SNLI loader and cleaner
  (\<^verbatim>\<open>snli.load_pandas_df\<close>, \<^verbatim>\<open>snli.clean_cols\<close>, \<^verbatim>\<open>snli.clean_rows\<close>), the word-vector
  downloader (\<^verbatim>\<open>download_and_extract\<close>) and the model wrapper (\<^verbatim>\<open>GenSenClassifier\<close>, its
  \<^verbatim>\<open>fit\<close> and its \<^verbatim>\<open>predict\<close>).
\<close>

fun via_three_collaborators :: "call_kind \<Rightarrow> bool" where
  "via_three_collaborators K_load_pandas_df = True"
| "via_three_collaborators K_clean_cols = True"
| "via_three_collaborators K_clean_rows = True"
| "via_three_collaborators K_download_and_extract = True"
| "via_three_collaborators K_GenSenClassifier = True"
| "via_three_collaborators K_fit = True"
| "via_three_collaborators K_predict = True"
| "via_three_collaborators _ = False"

text \<open>
  The functions of \<^verbatim>\<open>utils_nlp.dataset.preprocess\<close> and of \<^verbatim>\<open>scrapbook\<close> that the notebook
  imports and calls as well.
\<close>

fun via_preprocess_or_scrapbook :: "call_kind \<Rightarrow> bool" where
  "via_preprocess_or_scrapbook K_to_lowercase = True"
| "via_preprocess_or_scrapbook K_to_nltk_tokens = True"
| "via_preprocess_or_scrapbook K_glue = True"
| "via_preprocess_or_scrapbook _ = False"

text \<open>Output of the notebook itself: the builtin \<^verbatim>\<open>print\<close> and the value a cell shows.\<close>

fun output_kind :: "call_kind \<Rightarrow> bool" where
  "output_kind K_print = True"
| "output_kind K_print_results = True"
| "output_kind K_display = True"
| "output_kind _ = False"

text \<open>The calls of imported functions in a trace, by kind.\<close>

definition external_calls :: "('df, 'clf, 'res, 'dict) event list \<Rightarrow> call_kind list" where
  "external_calls es = filter (\<lambda>k. \<not> output_kind k) (map kind es)"

text \<open>The calls of imported functions that the text of the notebook makes, in its order.\<close>

definition notebook_external_calls :: "call_kind list" where
  "notebook_external_calls =
     [K_load_pandas_df, K_load_pandas_df, K_load_pandas_df]
     @ clean_and_tokenize_kinds @ clean_and_tokenize_kinds @ clean_and_tokenize_kinds
     @ [K_download_and_extract, K_GenSenClassifier, K_fit, K_predict, K_glue]"



definition load_calls ::
  "('df, 'clf, 'res, 'dict) event list \<Rightarrow> ('df, 'clf, 'res, 'dict) event list" where
  "load_calls es = filter (\<lambda>e. kind e = K_load_pandas_df) es"


section \<open>The preprocessing functions\<close>

text \<open>
  The four functions that \<^verbatim>\<open>clean_and_tokenize\<close> calls are defined in \<^verbatim>\<open>utils_nlp.dataset.snli\<close>
  and \<^verbatim>\<open>utils_nlp.dataset.preprocess\<close>, which are not among the sources. What is known of them
  is what the specification and the notebook say: the frames are tabular records of sentence
  pairs with a gold label; cleaning drops the unnecessary columns and renames the relevant
  ones (the frame the notebook shows afterwards has the columns \<^verbatim>\<open>score\<close>, \<^verbatim>\<open>sentence1\<close>,
  \<^verbatim>\<open>sentence2\<close>, \<^verbatim>\<open>sentence1_tokens\<close>, \<^verbatim>\<open>sentence2_tokens\<close>, where the frame loaded has
  \<^verbatim>\<open>gold_label\<close>, \<^verbatim>\<open>sentence1\<close>, \<^verbatim>\<open>sentence2\<close> and eleven more); then comes lowercase
  standardization and tokenization with NLTK. This section models them from that.
\<close>

subsection \<open>Frames\<close>

text \<open>
  Modelled from the spec: the text of a cell. A Python string is a sequence of Unicode code
  points, so it is a list of numbers here (the column names, which the notebook writes in
  ASCII, stay strings of the logic).
\<close>

type_synonym ustring = "nat list"




subsection \<open>The four functions\<close>











subsection \<open>What a tokenized frame is\<close>














subsection \<open>What the notebook holds at its end\<close>




section \<open>Sample environments\<close>

text \<open>
  A small environment in which every call returns: a frame is stood for by its number of
  rows, the world counts the calls made.
\<close>

definition demo_env :: "(nat, unit, nat, nat, nat) env" where
  "demo_env =
     \<lparr>sys_version = ''3.6.8'',
      load_pandas_df =
        (\<lambda>path sp n w. (Inr (case sp of TRAIN \<Rightarrow> 3 | DEV \<Rightarrow> 2 | TEST \<Rightarrow> 1), Suc w)),
      clean_cols = (\<lambda>df w. (Inr df, Suc w)),
      clean_rows = (\<lambda>df w. (Inr (df - 1), Suc w)),
      to_lowercase = (\<lambda>df w. (Inr df, Suc w)),
      to_nltk_tokens = (\<lambda>df w. (Inr df, Suc w)),
      df_head = (\<lambda>df. min df 5),
      download_and_extract = (\<lambda>path w. (Inr (path @ ''/glove''), Suc w)),
      GenSenClassifier = (\<lambda>cfg emb lr cache me w. (Inr (), Suc w)),
      fit = (\<lambda>c tr dv te w. (Inr (), Suc w)),
      predict = (\<lambda>c xs w. (Inr (length xs), Suc w)),
      to_dict = (\<lambda>r. r),
      glue = (\<lambda>name d w. (Inr (), Suc w))\<rparr>"

text \<open>The same environment with a \<^verbatim>\<open>fit\<close> that raises (the GPU runs out of memory, say).\<close>

definition raising_fit_env :: "(nat, unit, nat, nat, nat) env" where
  "raising_fit_env =
     demo_env\<lparr>fit := (\<lambda>c tr dv te w. (Inl (Raised ''CUDA out of memory''), Suc w))\<rparr>"


text \<open>
  Text for the samples: the code points of an ASCII string; a tokenizer that splits at
  spaces; a row test that keeps the rows whose label is a string other than \<^verbatim>\<open>-\<close>.
\<close>

definition u :: "string \<Rightarrow> ustring" where
  "u s = map of_char s"













text \<open>The sample runs of the whole notebook.\<close>

definition demo_run ::
  "(error + (nat, unit, nat) globals) \<times> (nat, (nat, unit, nat, nat) event) nb_state" where
  "demo_run = notebook demo_env default_params (init 0)"

definition raising_fit_run ::
  "(error + (nat, unit, nat) globals) \<times> (nat, (nat, unit, nat, nat) event) nb_state" where
  "raising_fit_run = notebook raising_fit_env default_params (init 0)"


section \<open>Properties of sequencing\<close>

text \<open>
  A sequence that returns has run each of its parts, each returning; what a returning call
  or output leaves in the state.
\<close>

lemma bnd_InrE:
  assumes "bnd m f s = (Inr y, s'')"
  obtains x s' where "m s = (Inr x, s')" and "f x s' = (Inr y, s'')"
  using assms by (auto simp: bnd_def split: prod.splits sum.splits)

lemma bnd_Inr: "m s = (Inr x, s') \<Longrightarrow> bnd m f s = f x s'"
  by (simp add: bnd_def)

lemma call_Inr:
  assumes "call f ev s = (Inr x, s')"
  shows "f (world s) = (Inr x, world s') \<and> trace s' = trace s @ [ev (Inr x)]"
  using assms by (auto simp: call_def split: prod.splits)


lemma emit_Inr:
  assumes "emit e s = (r, s')"
  shows "r = Inr () \<and> world s' = world s \<and> trace s' = trace s @ [e]"
  using assms by (auto simp: emit_def)



lemma time_magic_call:
  assumes "time_magic (call f ev) s = (x, s')"
  shows "x = Inr () \<and> (\<exists>r. f (world s) = (r, world s') \<and> trace s' = trace s @ [ev r])"
  using assms by (auto simp: time_magic_def call_def split: prod.splits sum.splits)

text \<open>
  The rules that build \<open>performs\<close> along the text of a cell.
\<close>

lemma performs_ret: "performs (ret x) []"
  by (simp add: performs_def ret_def)

lemma performs_emit: "returned_or_fit e \<Longrightarrow> performs (emit e) [kind e]"
  by (simp add: performs_def emit_def)

lemma performs_call:
  fixes f :: "'w \<Rightarrow> (error + 'a) \<times> 'w" and ev :: "error + 'a \<Rightarrow> ('df, 'clf, 'res, 'dict) event"
  assumes "\<And>r. kind (ev r) = k" and "\<And>x. returned_or_fit (ev (Inr x))"
  shows "performs (call f ev) [k]"
  unfolding performs_def
proof
  fix s :: "('df, 'clf, 'res, 'dict, 'w) st"
  obtain r w' where f: "f (world s) = (r, w')" by (cases "f (world s)")
  show "\<exists>es. trace (snd (call f ev s)) = trace s @ es \<and> prefix (map kind es) [k] \<and>
          list_all returned_or_fit (butlast es) \<and>
          (isl (fst (call f ev s)) \<or> map kind es = [k] \<and> list_all returned_or_fit es)"
    using f assms by (intro exI[of _ "[ev r]"]) (cases r; simp add: call_def)
qed

lemma performs_bnd:
  assumes m: "performs m ks" and f: "\<And>x. performs (f x) ks'"
  shows "performs (bnd m f) (ks @ ks')"
  unfolding performs_def
proof
  fix s
  from m obtain es1 where
    t1: "trace (snd (m s)) = trace s @ es1" and p1: "prefix (map kind es1) ks" and
    b1: "list_all returned_or_fit (butlast es1)" and
    c1: "isl (fst (m s)) \<or> map kind es1 = ks \<and> list_all returned_or_fit es1"
    unfolding performs_def by blast
  obtain r s' where ms: "m s = (r, s')" by (cases "m s")
  show "\<exists>es. trace (snd (bnd m f s)) = trace s @ es \<and> prefix (map kind es) (ks @ ks') \<and>
          list_all returned_or_fit (butlast es) \<and>
          (isl (fst (bnd m f s)) \<or> map kind es = ks @ ks' \<and> list_all returned_or_fit es)"
  proof (cases r)
    case (Inl e)
    with ms have "bnd m f s = (Inl e, s')" by (simp add: bnd_def)
    with ms t1 p1 b1 show ?thesis by (intro exI[of _ es1]) (auto simp: prefix_def)
  next
    case (Inr x)
    with ms have b: "bnd m f s = f x s'" by (simp add: bnd_def)
    from Inr ms c1 have k1: "map kind es1 = ks" and a1: "list_all returned_or_fit es1" by simp_all
    from f[of x] obtain es2 where
      t2: "trace (snd (f x s')) = trace s' @ es2" and p2: "prefix (map kind es2) ks'" and
      b2: "list_all returned_or_fit (butlast es2)" and
      c2: "isl (fst (f x s')) \<or> map kind es2 = ks' \<and> list_all returned_or_fit es2"
      unfolding performs_def by blast
    from a1 b2 have "list_all returned_or_fit (butlast (es1 @ es2))"
      by (cases "es2 = []") (auto simp: butlast_append list_all_iff dest: in_set_butlastD)
    with ms t1 t2 b k1 a1 p2 c2 show ?thesis
      by (intro exI[of _ "es1 @ es2"]) auto
  qed
qed

lemma performs_call_bnd:
  assumes "\<And>r. kind (ev r) = k" and "\<And>x. returned_or_fit (ev (Inr x))"
    and "\<And>x. performs (f x) ks"
  shows "performs (bnd (call g ev) f) (k # ks)"
  using performs_bnd[OF performs_call[of ev k g], of f ks] assms by simp

lemma performs_emit_bnd:
  assumes "kind e = k" and "returned_or_fit e" and "\<And>x. performs (f x) ks"
  shows "performs (bnd (emit e) f) (k # ks)"
  using performs_bnd[OF performs_emit[of e], of f ks] assms by simp

lemma performs_time_magic:
  fixes f :: "'w \<Rightarrow> (error + 'a) \<times> 'w" and ev :: "error + 'a \<Rightarrow> ('df, 'clf, 'res, 'dict) event"
  assumes "\<And>r. kind (ev r) = K_fit"
  shows "performs (time_magic (call f ev)) [K_fit]"
  unfolding performs_def
proof
  fix s :: "('df, 'clf, 'res, 'dict, 'w) st"
  obtain r w' where f: "f (world s) = (r, w')" by (cases "f (world s)")
  show "\<exists>es. trace (snd (time_magic (call f ev) s)) = trace s @ es \<and>
          prefix (map kind es) [K_fit] \<and> list_all returned_or_fit (butlast es) \<and>
          (isl (fst (time_magic (call f ev) s)) \<or>
           map kind es = [K_fit] \<and> list_all returned_or_fit es)"
    using f assms
    by (intro exI[of _ "[ev r]"]) (cases r; simp add: call_def time_magic_def returned_or_fit_def)
qed

lemma performs_case_prod3:
  assumes "\<And>a b c. performs (f a b c) ks"
  shows "performs (case x of (a, b, c) \<Rightarrow> f a b c) ks"
  using assms by (cases x) auto

section \<open>The calls of every run\<close>

lemma performs_clean_and_tokenize:
  "performs (clean_and_tokenize E df) clean_and_tokenize_kinds"
  unfolding clean_and_tokenize_def snli_clean_cols_def snli_clean_rows_def
    preprocess_to_lowercase_def preprocess_to_nltk_tokens_def clean_and_tokenize_kinds_def
  by (intro performs_call_bnd performs_ret) (simp_all add: returned_or_fit_def)

lemma performs_cell_load:
  "performs (cell_load E p) [K_load_pandas_df, K_load_pandas_df, K_load_pandas_df, K_display]"
  unfolding cell_load_def snli_load_pandas_df_def display_def
  by (intro performs_call_bnd performs_emit_bnd performs_ret) (simp_all add: returned_or_fit_def)

lemma performs_cell_tokenize:
  "performs (cell_tokenize E tr dv te)
     (clean_and_tokenize_kinds @ clean_and_tokenize_kinds @ clean_and_tokenize_kinds @ [])"
  unfolding cell_tokenize_def
  by (intro performs_bnd performs_clean_and_tokenize performs_ret)

lemma performs_cell_predict:
  "performs (cell_predict E c) [K_predict, K_print, K_print_results, K_glue]"
  unfolding cell_predict_def clf_predict_def py_print_def py_print_results_def sb_glue_def
  by (intro performs_call_bnd performs_emit_bnd performs_ret) (simp_all add: returned_or_fit_def)

lemma performs_notebook: "performs (notebook E p) notebook_kinds"
proof -
  have "performs (notebook E p)
          ([K_print] @ [K_load_pandas_df, K_load_pandas_df, K_load_pandas_df, K_display]
           @ (clean_and_tokenize_kinds @ clean_and_tokenize_kinds @ clean_and_tokenize_kinds @ [])
           @ [K_display] @ [K_download_and_extract] @ [K_GenSenClassifier] @ [K_fit]
           @ [K_predict, K_print, K_print_results, K_glue] @ [])"
    unfolding notebook_def
  proof (intro performs_bnd performs_case_prod3 performs_ret)
    show "performs (cell_imports E) [K_print]"
      using performs_emit[of "Print (''System version: '' @ sys_version E)"]
      by (simp add: cell_imports_def py_print_def returned_or_fit_def)
    show "performs (cell_load E p)
            [K_load_pandas_df, K_load_pandas_df, K_load_pandas_df, K_display]"
      by (rule performs_cell_load)
    show "performs (cell_tokenize E a b c)
            (clean_and_tokenize_kinds @ clean_and_tokenize_kinds @ clean_and_tokenize_kinds @ [])"
      for a b c
      by (rule performs_cell_tokenize)
    show "performs (cell_dev_head E b) [K_display]" for b
      using performs_emit[of "Display (df_head E b)"]
      by (simp add: cell_dev_head_def display_def returned_or_fit_def)
    show "performs (cell_download E p) [K_download_and_extract]"
      unfolding cell_download_def glove_download_and_extract_def
      by (rule performs_call) (simp_all add: returned_or_fit_def)
    show "performs (cell_init E p x) [K_GenSenClassifier]" for x
      unfolding cell_init_def new_GenSenClassifier_def
      by (rule performs_call) (simp_all add: returned_or_fit_def)
    show "performs (cell_fit E c a b d) [K_fit]" for c a b d
      unfolding cell_fit_def clf_fit_def by (rule performs_time_magic) simp
    show "performs (cell_predict E c) [K_predict, K_print, K_print_results, K_glue]" for c
      by (rule performs_cell_predict)
  qed
  then show ?thesis by (simp add: notebook_kinds_def)
qed

text \<open>
  Whatever the collaborators do, the calls of a run are an initial part of the calls the
  text makes, only the call of \<^verbatim>\<open>fit\<close> and the last call of the run can have raised, and a
  run that returns has made them all.
\<close>

lemma notebook_any_run:
  "prefix (map kind (trace (snd (notebook E p (init w))))) notebook_kinds \<and>
   list_all returned_or_fit (butlast (trace (snd (notebook E p (init w))))) \<and>
   (isl (fst (notebook E p (init w))) \<or>
      map kind (trace (snd (notebook E p (init w)))) = notebook_kinds)"
proof -
  from performs_notebook[of E p] obtain es where
    "trace (snd (notebook E p (init w))) = trace (init w) @ es" and
    "prefix (map kind es) notebook_kinds" and "list_all returned_or_fit (butlast es)" and
    "isl (fst (notebook E p (init w))) \<or> map kind es = notebook_kinds \<and> list_all returned_or_fit es"
    unfolding performs_def by blast
  then show ?thesis by (auto simp: init_def)
qed

lemma completed_kinds:
  assumes "notebook E p (init w) = (Inr g, s')"
  shows "map kind (trace s') = notebook_kinds"
  using notebook_any_run[of E p w] assms by simp

lemma notebook_kinds_without_output:
  "filter (\<lambda>k. \<not> output_kind k) notebook_kinds = notebook_external_calls"
  by (simp add: notebook_kinds_def notebook_external_calls_def clean_and_tokenize_kinds_def)

section \<open>The trace records what was done\<close>

lemma replay_append:
  "replay E (es1 @ es2) w =
     (case replay E es1 w of None \<Rightarrow> None | Some w' \<Rightarrow> replay E es2 w')"
  by (induction es1 arbitrary: w) (auto split: option.splits)

lemma faithful_ret: "faithful E (ret x)"
  by (simp add: faithful_def ret_def)

lemma faithful_emit:
  assumes "\<And>w. replay_call E e w = Some w"
  shows "faithful E (emit e)"
  using assms by (simp add: faithful_def emit_def)

lemma faithful_call:
  fixes f :: "'w \<Rightarrow> (error + 'a) \<times> 'w" and ev :: "error + 'a \<Rightarrow> ('df, 'clf, 'res, 'dict) event"
  assumes "\<And>w r. replay_call E (ev r) w = recorded (f w) r"
  shows "faithful E (call f ev)"
  unfolding faithful_def
proof
  fix s :: "('df, 'clf, 'res, 'dict, 'w) st"
  obtain r w' where f: "f (world s) = (r, w')" by (cases "f (world s)")
  show "\<exists>es. trace (snd (call f ev s)) = trace s @ es \<and>
          replay E es (world s) = Some (world (snd (call f ev s)))"
    using f assms by (intro exI[of _ "[ev r]"]) (simp add: call_def recorded_def)
qed

lemma faithful_time_magic:
  assumes "faithful E m"
  shows "faithful E (time_magic m)"
  unfolding faithful_def
proof
  fix s
  from assms obtain es where
    es: "trace (snd (m s)) = trace s @ es" "replay E es (world s) = Some (world (snd (m s)))"
    unfolding faithful_def by blast
  obtain r s' where ms: "m s = (r, s')" by (cases "m s")
  then have "snd (time_magic m s) = s'" by (cases r) (simp_all add: time_magic_def)
  with es ms show "\<exists>es. trace (snd (time_magic m s)) = trace s @ es \<and>
          replay E es (world s) = Some (world (snd (time_magic m s)))"
    by (intro exI[of _ es]) simp
qed

lemma faithful_bnd:
  assumes m: "faithful E m" and f: "\<And>x. faithful E (f x)"
  shows "faithful E (bnd m f)"
  unfolding faithful_def
proof
  fix s
  from m obtain es1 where
    t1: "trace (snd (m s)) = trace s @ es1" and
    r1: "replay E es1 (world s) = Some (world (snd (m s)))"
    unfolding faithful_def by blast
  obtain r s' where ms: "m s = (r, s')" by (cases "m s")
  show "\<exists>es. trace (snd (bnd m f s)) = trace s @ es \<and>
          replay E es (world s) = Some (world (snd (bnd m f s)))"
  proof (cases r)
    case (Inl e)
    with ms have "bnd m f s = (Inl e, s')" by (simp add: bnd_def)
    with ms t1 r1 show ?thesis by (intro exI[of _ es1]) simp
  next
    case (Inr x)
    with ms have b: "bnd m f s = f x s'" by (simp add: bnd_def)
    from f[of x] obtain es2 where
      t2: "trace (snd (f x s')) = trace s' @ es2" and
      r2: "replay E es2 (world s') = Some (world (snd (f x s')))"
      unfolding faithful_def by blast
    with ms t1 r1 b show ?thesis
      by (intro exI[of _ "es1 @ es2"]) (simp add: replay_append)
  qed
qed

lemma faithful_case_prod3:
  assumes "\<And>a b c. faithful E (f a b c)"
  shows "faithful E (case x of (a, b, c) \<Rightarrow> f a b c)"
  using assms by (cases x) auto

lemma faithful_clean_and_tokenize: "faithful E (clean_and_tokenize E df)"
  unfolding clean_and_tokenize_def snli_clean_cols_def snli_clean_rows_def
    preprocess_to_lowercase_def preprocess_to_nltk_tokens_def
  by (intro faithful_bnd faithful_call faithful_ret) simp_all

lemma faithful_notebook: "faithful E (notebook E p)"
  unfolding notebook_def cell_imports_def cell_load_def cell_tokenize_def cell_dev_head_def
    cell_download_def cell_init_def cell_fit_def cell_predict_def
    snli_load_pandas_df_def glove_download_and_extract_def new_GenSenClassifier_def
    clf_fit_def clf_predict_def sb_glue_def py_print_def py_print_results_def display_def
  by (intro faithful_bnd faithful_case_prod3 faithful_time_magic faithful_call faithful_emit
      faithful_ret faithful_clean_and_tokenize) simp_all

text \<open>
  The trace of a run, replayed from the world the run started in, gives the world the run
  left: each call recorded was made on the world that the calls before it left, had the
  outcome recorded, and nothing but these calls changed the world. This holds of every
  run, whether it reached the end or not.
\<close>

lemma notebook_trace_replays:
  "replay E (trace (snd (notebook E p (init w)))) w = Some (world (snd (notebook E p (init w))))"
proof -
  obtain es where
    "trace (snd (notebook E p (init w))) = trace (init w) @ es" and
    "replay E es w = Some (world (snd (notebook E p (init w))))"
    using faithful_notebook[of E p, unfolded faithful_def, THEN spec, of "init w"]
    by (auto simp: init_def)
  then show ?thesis by (simp add: init_def)
qed

section \<open>Runs that reach the end\<close>

lemma clean_and_tokenize_completed:
  assumes "clean_and_tokenize E df0 s = (Inr df4, s')"
  shows "\<exists>df1 df2 df3 w1 w2 w3.
           clean_cols E df0 (world s) = (Inr df1, w1) \<and>
           clean_rows E df1 w1 = (Inr df2, w2) \<and>
           to_lowercase E df2 w2 = (Inr df3, w3) \<and>
           to_nltk_tokens E df3 w3 = (Inr df4, world s') \<and>
           trace s' = trace s @ tokenize_events df0 df1 df2 df3 df4"
proof -
  from assms obtain df1 s1 where
    a1: "snli_clean_cols E df0 s = (Inr df1, s1)" and
    r1: "bnd (snli_clean_rows E df1) (\<lambda>df2.
           bnd (preprocess_to_lowercase E df2) (\<lambda>df3.
           bnd (preprocess_to_nltk_tokens E df3) (\<lambda>df4. ret df4))) s1 = (Inr df4, s')"
    unfolding clean_and_tokenize_def by (erule bnd_InrE)
  from r1 obtain df2 s2 where
    a2: "snli_clean_rows E df1 s1 = (Inr df2, s2)" and
    r2: "bnd (preprocess_to_lowercase E df2) (\<lambda>df3.
           bnd (preprocess_to_nltk_tokens E df3) (\<lambda>df4. ret df4)) s2 = (Inr df4, s')"
    by (erule bnd_InrE)
  from r2 obtain df3 s3 where
    a3: "preprocess_to_lowercase E df2 s2 = (Inr df3, s3)" and
    r3: "bnd (preprocess_to_nltk_tokens E df3) (\<lambda>df4. ret df4) s3 = (Inr df4, s')"
    by (erule bnd_InrE)
  from r3 obtain df4' s4 where
    a4: "preprocess_to_nltk_tokens E df3 s3 = (Inr df4', s4)" and
    r4: "ret df4' s4 = (Inr df4, s')"
    by (erule bnd_InrE)
  from r4 have e: "df4' = df4" "s4 = s'" by (simp_all add: ret_def)
  from a1 a2 a3 a4 e show ?thesis
    unfolding snli_clean_cols_def snli_clean_rows_def preprocess_to_lowercase_def
      preprocess_to_nltk_tokens_def tokenize_events_def
    by (auto dest!: call_Inr)
qed

lemma cell_load_completed:
  assumes "cell_load E p s = (Inr (tr, dv, te), s')"
  shows "trace s' = trace s @
           [Load_pandas_df (base_data_path p) TRAIN (nrows p) (Inr tr),
            Load_pandas_df (base_data_path p) DEV (nrows p) (Inr dv),
            Load_pandas_df (base_data_path p) TEST (nrows p) (Inr te),
            Display (df_head E tr)]"
proof -
  from assms obtain tr' s1 where
    a1: "snli_load_pandas_df E (base_data_path p) TRAIN (nrows p) s = (Inr tr', s1)" and
    r1: "bnd (snli_load_pandas_df E (base_data_path p) DEV (nrows p)) (\<lambda>dv.
         bnd (snli_load_pandas_df E (base_data_path p) TEST (nrows p)) (\<lambda>te.
         bnd (display (df_head E tr')) (\<lambda>_. ret (tr', dv, te)))) s1 = (Inr (tr, dv, te), s')"
    unfolding cell_load_def by (erule bnd_InrE)
  from r1 obtain dv' s2 where
    a2: "snli_load_pandas_df E (base_data_path p) DEV (nrows p) s1 = (Inr dv', s2)" and
    r2: "bnd (snli_load_pandas_df E (base_data_path p) TEST (nrows p)) (\<lambda>te.
         bnd (display (df_head E tr')) (\<lambda>_. ret (tr', dv', te))) s2 = (Inr (tr, dv, te), s')"
    by (erule bnd_InrE)
  from r2 obtain te' s3 where
    a3: "snli_load_pandas_df E (base_data_path p) TEST (nrows p) s2 = (Inr te', s3)" and
    r3: "bnd (display (df_head E tr')) (\<lambda>_. ret (tr', dv', te')) s3 = (Inr (tr, dv, te), s')"
    by (erule bnd_InrE)
  from r3 obtain u s4 where
    a4: "display (df_head E tr') s3 = (Inr u, s4)" and
    r4: "ret (tr', dv', te') s4 = (Inr (tr, dv, te), s')"
    by (erule bnd_InrE)
  from r4 have e: "tr' = tr" "dv' = dv" "te' = te" "s4 = s'" by (simp_all add: ret_def)
  from a4 have t4: "trace s4 = trace s3 @ [Display (df_head E tr')]"
    unfolding display_def by (auto dest: emit_Inr)
  from a1 a2 a3 t4 e show ?thesis
    unfolding snli_load_pandas_df_def by (auto dest!: call_Inr)
qed

lemma cell_tokenize_completed:
  assumes "cell_tokenize E tr0 dv0 te0 s = (Inr (tr, dv, te), s')"
  shows "\<exists>s1 s2. clean_and_tokenize E tr0 s = (Inr tr, s1) \<and>
           clean_and_tokenize E dv0 s1 = (Inr dv, s2) \<and>
           clean_and_tokenize E te0 s2 = (Inr te, s')"
proof -
  from assms obtain tr' s1 where
    a1: "clean_and_tokenize E tr0 s = (Inr tr', s1)" and
    r1: "bnd (clean_and_tokenize E dv0) (\<lambda>dv. bnd (clean_and_tokenize E te0) (\<lambda>te.
           ret (tr', dv, te))) s1 = (Inr (tr, dv, te), s')"
    unfolding cell_tokenize_def by (erule bnd_InrE)
  from r1 obtain dv' s2 where
    a2: "clean_and_tokenize E dv0 s1 = (Inr dv', s2)" and
    r2: "bnd (clean_and_tokenize E te0) (\<lambda>te. ret (tr', dv', te)) s2 = (Inr (tr, dv, te), s')"
    by (erule bnd_InrE)
  from r2 obtain te' s3 where
    a3: "clean_and_tokenize E te0 s2 = (Inr te', s3)" and
    r3: "ret (tr', dv', te') s3 = (Inr (tr, dv, te), s')"
    by (erule bnd_InrE)
  from r3 have "tr' = tr" "dv' = dv" "te' = te" "s3 = s'" by (simp_all add: ret_def)
  with a1 a2 a3 show ?thesis by blast
qed

lemma cell_fit_completed:
  assumes "cell_fit E c tr dv te s = (x, s')"
  shows "\<exists>r. fit E c tr dv te (world s) = (r, world s') \<and>
           trace s' = trace s @ [Fit c tr dv te r]"
  using assms unfolding cell_fit_def clf_fit_def by (auto dest: time_magic_call)

lemma cell_predict_completed:
  assumes "cell_predict E c s = (Inr res, s')"
  shows "(\<exists>w'. predict E c sentences (world s) = (Inr res, w') \<and>
               glue E ''results'' (to_dict E res) w' = (Inr (), world s')) \<and>
         trace s' = trace s @
           [Predict c sentences (Inr res), Print banner, Print_results res,
            Glue ''results'' (to_dict E res) (Inr ())]"
proof -
  from assms obtain res' s1 where
    a1: "clf_predict E c sentences s = (Inr res', s1)" and
    r1: "bnd (py_print banner) (\<lambda>_. bnd (py_print_results res') (\<lambda>_.
           bnd (sb_glue E ''results'' (to_dict E res')) (\<lambda>_. ret res'))) s1 = (Inr res, s')"
    unfolding cell_predict_def by (erule bnd_InrE)
  from r1 obtain u1 s2 where
    a2: "py_print banner s1 = (Inr u1, s2)" and
    r2: "bnd (py_print_results res') (\<lambda>_.
           bnd (sb_glue E ''results'' (to_dict E res')) (\<lambda>_. ret res')) s2 = (Inr res, s')"
    by (erule bnd_InrE)
  from r2 obtain u2 s3 where
    a3: "py_print_results res' s2 = (Inr u2, s3)" and
    r3: "bnd (sb_glue E ''results'' (to_dict E res')) (\<lambda>_. ret res') s3 = (Inr res, s')"
    by (erule bnd_InrE)
  from r3 obtain u3 s4 where
    a4: "sb_glue E ''results'' (to_dict E res') s3 = (Inr u3, s4)" and
    r4: "ret res' s4 = (Inr res, s')"
    by (erule bnd_InrE)
  from r4 have e: "res' = res" "s4 = s'" by (simp_all add: ret_def)
  from a2 have t2: "trace s2 = trace s1 @ [Print banner]" "world s2 = world s1"
    unfolding py_print_def by (auto dest: emit_Inr)
  from a3 have t3: "trace s3 = trace s2 @ [Print_results res']" "world s3 = world s2"
    unfolding py_print_results_def by (auto dest: emit_Inr)
  from a1 a4 t2 t3 e show ?thesis
    unfolding clf_predict_def sb_glue_def by (auto dest!: call_Inr)
qed

text \<open>
  A run that reaches the end, cell by cell: each cell returned, and the values it returned
  are the arguments of the cells after it and the final global variables.
\<close>

lemma notebook_cells:
  assumes "notebook E p s = (Inr g, s')"
  obtains s0 s1 s2 s3 s4 s5 s6 tr0 dv0 te0 where
    "cell_imports E s = (Inr (), s0)"
    "cell_load E p s0 = (Inr (tr0, dv0, te0), s1)"
    "cell_tokenize E tr0 dv0 te0 s1 = (Inr (train g, dev g, test g), s2)"
    "cell_dev_head E (dev g) s2 = (Inr (), s3)"
    "cell_download E p s3 = (Inr (pretrained_embedding_path g), s4)"
    "cell_init E p (pretrained_embedding_path g) s4 = (Inr (clf g), s5)"
    "cell_fit E (clf g) (train g) (dev g) (test g) s5 = (Inr (), s6)"
    "cell_predict E (clf g) s6 = (Inr (results g), s')"
proof -
  from assms obtain u0 s0 where
    a0: "cell_imports E s = (Inr u0, s0)" and
    r0: "bnd (cell_load E p) (\<lambda>(tr0, dv0, te0).
         bnd (cell_tokenize E tr0 dv0 te0) (\<lambda>(tr, dv, te).
         bnd (cell_dev_head E dv) (\<lambda>_.
         bnd (cell_download E p) (\<lambda>emb.
         bnd (cell_init E p emb) (\<lambda>c.
         bnd (cell_fit E c tr dv te) (\<lambda>_.
         bnd (cell_predict E c) (\<lambda>res.
         ret \<lparr>train = tr, dev = dv, test = te, pretrained_embedding_path = emb,
              clf = c, results = res\<rparr>))))))) s0 = (Inr g, s')"
    unfolding notebook_def by (erule bnd_InrE)
  from r0 obtain x1 s1 where
    a1: "cell_load E p s0 = (Inr x1, s1)" and
    r1: "(case x1 of (tr0, dv0, te0) \<Rightarrow>
         bnd (cell_tokenize E tr0 dv0 te0) (\<lambda>(tr, dv, te).
         bnd (cell_dev_head E dv) (\<lambda>_.
         bnd (cell_download E p) (\<lambda>emb.
         bnd (cell_init E p emb) (\<lambda>c.
         bnd (cell_fit E c tr dv te) (\<lambda>_.
         bnd (cell_predict E c) (\<lambda>res.
         ret \<lparr>train = tr, dev = dv, test = te, pretrained_embedding_path = emb,
              clf = c, results = res\<rparr>))))))) s1 = (Inr g, s')"
    by (erule bnd_InrE)
  obtain tr0 dv0 te0 where x1: "x1 = (tr0, dv0, te0)" by (cases x1)
  from r1 x1 obtain x2 s2 where
    a2: "cell_tokenize E tr0 dv0 te0 s1 = (Inr x2, s2)" and
    r2: "(case x2 of (tr, dv, te) \<Rightarrow>
         bnd (cell_dev_head E dv) (\<lambda>_.
         bnd (cell_download E p) (\<lambda>emb.
         bnd (cell_init E p emb) (\<lambda>c.
         bnd (cell_fit E c tr dv te) (\<lambda>_.
         bnd (cell_predict E c) (\<lambda>res.
         ret \<lparr>train = tr, dev = dv, test = te, pretrained_embedding_path = emb,
              clf = c, results = res\<rparr>)))))) s2 = (Inr g, s')"
    by (auto elim: bnd_InrE)
  obtain tr dv te where x2: "x2 = (tr, dv, te)" by (cases x2)
  from r2 x2 obtain u3 s3 where
    a3: "cell_dev_head E dv s2 = (Inr u3, s3)" and
    r3: "bnd (cell_download E p) (\<lambda>emb.
         bnd (cell_init E p emb) (\<lambda>c.
         bnd (cell_fit E c tr dv te) (\<lambda>_.
         bnd (cell_predict E c) (\<lambda>res.
         ret \<lparr>train = tr, dev = dv, test = te, pretrained_embedding_path = emb,
              clf = c, results = res\<rparr>)))) s3 = (Inr g, s')"
    by (auto elim: bnd_InrE)
  from r3 obtain emb s4 where
    a4: "cell_download E p s3 = (Inr emb, s4)" and
    r4: "bnd (cell_init E p emb) (\<lambda>c.
         bnd (cell_fit E c tr dv te) (\<lambda>_.
         bnd (cell_predict E c) (\<lambda>res.
         ret \<lparr>train = tr, dev = dv, test = te, pretrained_embedding_path = emb,
              clf = c, results = res\<rparr>))) s4 = (Inr g, s')"
    by (erule bnd_InrE)
  from r4 obtain c s5 where
    a5: "cell_init E p emb s4 = (Inr c, s5)" and
    r5: "bnd (cell_fit E c tr dv te) (\<lambda>_.
         bnd (cell_predict E c) (\<lambda>res.
         ret \<lparr>train = tr, dev = dv, test = te, pretrained_embedding_path = emb,
              clf = c, results = res\<rparr>)) s5 = (Inr g, s')"
    by (erule bnd_InrE)
  from r5 obtain u6 s6 where
    a6: "cell_fit E c tr dv te s5 = (Inr u6, s6)" and
    r6: "bnd (cell_predict E c) (\<lambda>res.
         ret \<lparr>train = tr, dev = dv, test = te, pretrained_embedding_path = emb,
              clf = c, results = res\<rparr>) s6 = (Inr g, s')"
    by (erule bnd_InrE)
  from r6 obtain res s7 where
    a7: "cell_predict E c s6 = (Inr res, s7)" and
    r7: "ret \<lparr>train = tr, dev = dv, test = te, pretrained_embedding_path = emb,
              clf = c, results = res\<rparr> s7 = (Inr g, s')"
    by (erule bnd_InrE)
  from r7 have g: "g = \<lparr>train = tr, dev = dv, test = te, pretrained_embedding_path = emb,
              clf = c, results = res\<rparr>" and s7: "s7 = s'"
    by (simp_all add: ret_def)
  show thesis
    using that[of s0 tr0 dv0 te0 s1 s2 s3 s4 s5 s6] a0 a1 a2 a3 a4 a5 a6 a7 x1 x2 g s7
    by simp
qed

lemma notebook_completed:
  assumes "notebook E p s = (Inr g, s')"
  shows "\<exists>tr0 tr1 tr2 tr3 dv0 dv1 dv2 dv3 te0 te1 te2 te3 r.
           trace s' = trace s @
             completed_trace E p g (tr0, tr1, tr2, tr3) (dv0, dv1, dv2, dv3) (te0, te1, te2, te3) r"
proof -
  from assms obtain s0 s1 s2 s3 s4 s5 s6 tr0 dv0 te0 where
    a0: "cell_imports E s = (Inr (), s0)" and
    a1: "cell_load E p s0 = (Inr (tr0, dv0, te0), s1)" and
    a2: "cell_tokenize E tr0 dv0 te0 s1 = (Inr (train g, dev g, test g), s2)" and
    a3: "cell_dev_head E (dev g) s2 = (Inr (), s3)" and
    a4: "cell_download E p s3 = (Inr (pretrained_embedding_path g), s4)" and
    a5: "cell_init E p (pretrained_embedding_path g) s4 = (Inr (clf g), s5)" and
    a6: "cell_fit E (clf g) (train g) (dev g) (test g) s5 = (Inr (), s6)" and
    a7: "cell_predict E (clf g) s6 = (Inr (results g), s')"
    by (rule notebook_cells)
  from a0 have t0: "trace s0 = trace s @ [Print (''System version: '' @ sys_version E)]"
    unfolding cell_imports_def py_print_def by (auto dest: emit_Inr)
  note t1 = cell_load_completed[OF a1]
  from cell_tokenize_completed[OF a2] obtain s21 s22 where
    c1: "clean_and_tokenize E tr0 s1 = (Inr (train g), s21)" and
    c2: "clean_and_tokenize E dv0 s21 = (Inr (dev g), s22)" and
    c3: "clean_and_tokenize E te0 s22 = (Inr (test g), s2)"
    by blast
  from clean_and_tokenize_completed[OF c1] obtain tr1 tr2 tr3 where
    t21: "trace s21 = trace s1 @ tokenize_events tr0 tr1 tr2 tr3 (train g)" by blast
  from clean_and_tokenize_completed[OF c2] obtain dv1 dv2 dv3 where
    t22: "trace s22 = trace s21 @ tokenize_events dv0 dv1 dv2 dv3 (dev g)" by blast
  from clean_and_tokenize_completed[OF c3] obtain te1 te2 te3 where
    t2: "trace s2 = trace s22 @ tokenize_events te0 te1 te2 te3 (test g)" by blast
  from a3 have t3: "trace s3 = trace s2 @ [Display (df_head E (dev g))]"
    unfolding cell_dev_head_def display_def by (auto dest: emit_Inr)
  from a4 have t4: "trace s4 = trace s3 @
      [Download_and_extract (base_data_path p) (Inr (pretrained_embedding_path g))]"
    unfolding cell_download_def glove_download_and_extract_def by (auto dest!: call_Inr)
  from a5 have t5: "trace s5 = trace s4 @
      [GenSenClassifier_new (config_filepath p) (pretrained_embedding_path g) learning_rate
         (base_data_path p) (max_epoch p) (Inr (clf g))]"
    unfolding cell_init_def new_GenSenClassifier_def by (auto dest!: call_Inr)
  from cell_fit_completed[OF a6] obtain r where
    t6: "trace s6 = trace s5 @ [Fit (clf g) (train g) (dev g) (test g) r]"
    by blast
  from cell_predict_completed[OF a7] have t7: "trace s' = trace s6 @
           [Predict (clf g) sentences (Inr (results g)), Print banner, Print_results (results g),
            Glue ''results'' (to_dict E (results g)) (Inr ())]"
    by simp
  have "trace s' = trace s @
      completed_trace E p g (tr0, tr1, tr2, tr3) (dv0, dv1, dv2, dv3) (te0, te1, te2, te3) r"
    unfolding completed_trace_def using t0 t1 t21 t22 t2 t3 t4 t5 t6 t7 by simp
  then show ?thesis by blast
qed


text \<open>
  A run that reaches the end, from the state in which the third \<^verbatim>\<open>clean_and_tokenize\<close>
  returned: the calls made after it, each on the world that the call before it left.
\<close>

lemma notebook_model_calls:
  assumes "notebook E p s = (Inr g, s')"
  shows "\<exists>tr0 dv0 te0 s0 s1 s2 s3 s4 r w1 w2 w3 w4 tr1 tr2 tr3 dv1 dv2 dv3 te1 te2 te3.
           cell_imports E s = (Inr (), s0) \<and>
           cell_load E p s0 = (Inr (tr0, dv0, te0), s1) \<and>
           clean_and_tokenize E tr0 s1 = (Inr (train g), s2) \<and>
           clean_and_tokenize E dv0 s2 = (Inr (dev g), s3) \<and>
           clean_and_tokenize E te0 s3 = (Inr (test g), s4) \<and>
           download_and_extract E (base_data_path p) (world s4) =
             (Inr (pretrained_embedding_path g), w1) \<and>
           GenSenClassifier E (config_filepath p) (pretrained_embedding_path g) learning_rate
             (base_data_path p) (max_epoch p) w1 = (Inr (clf g), w2) \<and>
           fit E (clf g) (train g) (dev g) (test g) w2 = (r, w3) \<and>
           predict E (clf g) sentences w3 = (Inr (results g), w4) \<and>
           glue E ''results'' (to_dict E (results g)) w4 = (Inr (), world s') \<and>
           trace s' = trace s4 @
             [Display (df_head E (dev g)),
              Download_and_extract (base_data_path p) (Inr (pretrained_embedding_path g)),
              GenSenClassifier_new (config_filepath p) (pretrained_embedding_path g)
                learning_rate (base_data_path p) (max_epoch p) (Inr (clf g)),
              Fit (clf g) (train g) (dev g) (test g) r,
              Predict (clf g) sentences (Inr (results g)),
              Print banner,
              Print_results (results g),
              Glue ''results'' (to_dict E (results g)) (Inr ())] \<and>
           trace s' = trace s @
             completed_trace E p g (tr0, tr1, tr2, tr3) (dv0, dv1, dv2, dv3) (te0, te1, te2, te3) r"
proof -
  from assms obtain s0 s1 s2 s3 s4 s5 s6 tr0 dv0 te0 where
    a0: "cell_imports E s = (Inr (), s0)" and
    a1: "cell_load E p s0 = (Inr (tr0, dv0, te0), s1)" and
    a2: "cell_tokenize E tr0 dv0 te0 s1 = (Inr (train g, dev g, test g), s2)" and
    a3: "cell_dev_head E (dev g) s2 = (Inr (), s3)" and
    a4: "cell_download E p s3 = (Inr (pretrained_embedding_path g), s4)" and
    a5: "cell_init E p (pretrained_embedding_path g) s4 = (Inr (clf g), s5)" and
    a6: "cell_fit E (clf g) (train g) (dev g) (test g) s5 = (Inr (), s6)" and
    a7: "cell_predict E (clf g) s6 = (Inr (results g), s')"
    by (rule notebook_cells)
  from cell_tokenize_completed[OF a2] obtain s21 s22 where
    c: "clean_and_tokenize E tr0 s1 = (Inr (train g), s21)"
       "clean_and_tokenize E dv0 s21 = (Inr (dev g), s22)"
       "clean_and_tokenize E te0 s22 = (Inr (test g), s2)"
    by blast
  from a3 have t3: "trace s3 = trace s2 @ [Display (df_head E (dev g))]"
    and w3: "world s3 = world s2"
    unfolding cell_dev_head_def display_def by (auto dest: emit_Inr)
  from a4 have t4: "trace s4 = trace s3 @
      [Download_and_extract (base_data_path p) (Inr (pretrained_embedding_path g))]"
    and w4: "download_and_extract E (base_data_path p) (world s3) =
      (Inr (pretrained_embedding_path g), world s4)"
    unfolding cell_download_def glove_download_and_extract_def by (auto dest!: call_Inr)
  from a5 have t5: "trace s5 = trace s4 @
      [GenSenClassifier_new (config_filepath p) (pretrained_embedding_path g) learning_rate
         (base_data_path p) (max_epoch p) (Inr (clf g))]"
    and w5: "GenSenClassifier E (config_filepath p) (pretrained_embedding_path g) learning_rate
      (base_data_path p) (max_epoch p) (world s4) = (Inr (clf g), world s5)"
    unfolding cell_init_def new_GenSenClassifier_def by (auto dest!: call_Inr)
  from cell_fit_completed[OF a6] obtain r where
    w6: "fit E (clf g) (train g) (dev g) (test g) (world s5) = (r, world s6)" and
    t6: "trace s6 = trace s5 @ [Fit (clf g) (train g) (dev g) (test g) r]"
    by blast
  from cell_predict_completed[OF a7] obtain w7 where
    pr: "predict E (clf g) sentences (world s6) = (Inr (results g), w7)" and
    gl: "glue E ''results'' (to_dict E (results g)) w7 = (Inr (), world s')" and
    t7: "trace s' = trace s6 @
           [Predict (clf g) sentences (Inr (results g)), Print banner, Print_results (results g),
            Glue ''results'' (to_dict E (results g)) (Inr ())]"
    by blast
  have t: "trace s' = trace s2 @
             [Display (df_head E (dev g)),
              Download_and_extract (base_data_path p) (Inr (pretrained_embedding_path g)),
              GenSenClassifier_new (config_filepath p) (pretrained_embedding_path g)
                learning_rate (base_data_path p) (max_epoch p) (Inr (clf g)),
              Fit (clf g) (train g) (dev g) (test g) r,
              Predict (clf g) sentences (Inr (results g)),
              Print banner,
              Print_results (results g),
              Glue ''results'' (to_dict E (results g)) (Inr ())]"
    using t3 t4 t5 t6 t7 by simp
  from w4 w3 have w4': "download_and_extract E (base_data_path p) (world s2) =
      (Inr (pretrained_embedding_path g), world s4)"
    by simp
  from a0 have t0: "trace s0 = trace s @ [Print (''System version: '' @ sys_version E)]"
    unfolding cell_imports_def py_print_def by (auto dest: emit_Inr)
  note t1 = cell_load_completed[OF a1]
  from clean_and_tokenize_completed[OF c(1)] obtain tr1 tr2 tr3 where
    t21: "trace s21 = trace s1 @ tokenize_events tr0 tr1 tr2 tr3 (train g)" by blast
  from clean_and_tokenize_completed[OF c(2)] obtain dv1 dv2 dv3 where
    t22: "trace s22 = trace s21 @ tokenize_events dv0 dv1 dv2 dv3 (dev g)" by blast
  from clean_and_tokenize_completed[OF c(3)] obtain te1 te2 te3 where
    t2: "trace s2 = trace s22 @ tokenize_events te0 te1 te2 te3 (test g)" by blast
  have whole: "trace s' = trace s @
      completed_trace E p g (tr0, tr1, tr2, tr3) (dv0, dv1, dv2, dv3) (te0, te1, te2, te3) r"
    unfolding completed_trace_def using t0 t1 t21 t22 t2 t by simp
  from a0 a1 c w4' w5 w6 pr gl t whole show ?thesis
    by - (rule exI[of _ tr0], rule exI[of _ dv0], rule exI[of _ te0], rule exI[of _ s0],
        rule exI[of _ s1], rule exI[of _ s21], rule exI[of _ s22], rule exI[of _ s2],
        rule exI[of _ r], rule exI[of _ "world s4"], rule exI[of _ "world s5"],
        rule exI[of _ "world s6"], rule exI[of _ w7], rule exI[of _ tr1], rule exI[of _ tr2],
        rule exI[of _ tr3], rule exI[of _ dv1], rule exI[of _ dv2], rule exI[of _ dv3],
        rule exI[of _ te1], rule exI[of _ te2], rule exI[of _ te3], simp)
qed

text \<open>
  The last cell: \<^verbatim>\<open>results\<close> is what \<^verbatim>\<open>clf.predict(sentences)\<close> returned, and that value
  is the one printed and the one whose \<^verbatim>\<open>to_dict()\<close> is recorded with scrapbook.
\<close>

lemma results_printed_and_recorded:
  assumes "notebook E p (init w) = (Inr g, s')"
  shows "\<exists>pre w1 w2. predict E (clf g) sentences w1 = (Inr (results g), w2) \<and>
           trace s' = pre @
             [Predict (clf g) sentences (Inr (results g)), Print banner,
              Print_results (results g), Glue ''results'' (to_dict E (results g)) (Inr ())]"
proof -
  from assms obtain s0 s1 s2 s3 s4 s5 s6 tr0 dv0 te0 where
    a0: "cell_imports E (init w) = (Inr (), s0)" and
    a1: "cell_load E p s0 = (Inr (tr0, dv0, te0), s1)" and
    a2: "cell_tokenize E tr0 dv0 te0 s1 = (Inr (train g, dev g, test g), s2)" and
    a3: "cell_dev_head E (dev g) s2 = (Inr (), s3)" and
    a4: "cell_download E p s3 = (Inr (pretrained_embedding_path g), s4)" and
    a5: "cell_init E p (pretrained_embedding_path g) s4 = (Inr (clf g), s5)" and
    a6: "cell_fit E (clf g) (train g) (dev g) (test g) s5 = (Inr (), s6)" and
    a7: "cell_predict E (clf g) s6 = (Inr (results g), s')"
    by (rule notebook_cells)
  from cell_predict_completed[OF a7] show ?thesis by blast
qed

section \<open>Stages\<close>

lemma prefix_remdups_adj_append: "prefix (remdups_adj xs) (remdups_adj (xs @ zs))"
proof (induction xs rule: remdups_adj.induct)
  case 1
  show ?case by simp
next
  case (2 x)
  show ?case by (simp add: remdups_adj_Cons split: list.splits)
next
  case (3 x y xs)
  then show ?case by auto
qed

lemma prefix_map_filter:
  assumes "prefix ks ks'"
  shows "prefix (List.map_filter f ks) (List.map_filter f ks')"
proof -
  from assms obtain zs where "ks' = ks @ zs" by (auto simp: prefix_def)
  then show ?thesis by (simp add: map_filter_def)
qed

lemma prefix_stages_of_kinds:
  assumes "prefix ks ks'"
  shows "prefix (stages_of_kinds ks) (stages_of_kinds ks')"
proof -
  from assms obtain zs where "ks' = ks @ zs" by (auto simp: prefix_def)
  then show ?thesis
    unfolding stages_of_kinds_def using prefix_remdups_adj_append
    by (simp add: map_filter_def)
qed

lemma stages_of_notebook_kinds: "stages_of_kinds notebook_kinds = all_stages"
  by (simp add: stages_of_kinds_def notebook_kinds_def clean_and_tokenize_kinds_def
      map_filter_simps all_stages_def)

lemma stage_calls_of_notebook_kinds: "List.map_filter stage_of_kind notebook_kinds = stage_plan"
  by (simp add: notebook_kinds_def clean_and_tokenize_kinds_def map_filter_simps stage_plan_def
      eval_nat_numeral)

section \<open>Dependence on the world\<close>






section \<open>Properties of the preprocessing functions\<close>















section \<open>The sample runs\<close>

lemmas notebook_defs =
  notebook_def cell_imports_def cell_load_def cell_tokenize_def cell_dev_head_def
  cell_download_def cell_init_def cell_fit_def cell_predict_def clean_and_tokenize_def
  snli_load_pandas_df_def snli_clean_cols_def snli_clean_rows_def preprocess_to_lowercase_def
  preprocess_to_nltk_tokens_def glove_download_and_extract_def new_GenSenClassifier_def
  clf_fit_def clf_predict_def sb_glue_def py_print_def py_print_results_def display_def
  bnd_def call_def emit_def ret_def init_def time_magic_def

lemma demo_run_value:
  "notebook demo_env default_params (init 0) =
     (Inr \<lparr>train = 2, dev = 1, test = 0, pretrained_embedding_path = ''../../data/glove'',
           clf = (), results = 2\<rparr>,
      \<lparr>world = 20,
       trace =
         [Print ''System version: 3.6.8'',
          Load_pandas_df ''../../data'' TRAIN None (Inr 3),
          Load_pandas_df ''../../data'' DEV None (Inr 2),
          Load_pandas_df ''../../data'' TEST None (Inr 1),
          Display 3,
          Clean_cols 3 (Inr 3), Clean_rows 3 (Inr 2), To_lowercase 2 (Inr 2),
          To_nltk_tokens 2 (Inr 2),
          Clean_cols 2 (Inr 2), Clean_rows 2 (Inr 1), To_lowercase 1 (Inr 1),
          To_nltk_tokens 1 (Inr 1),
          Clean_cols 1 (Inr 1), Clean_rows 1 (Inr 0), To_lowercase 0 (Inr 0),
          To_nltk_tokens 0 (Inr 0),
          Display 1,
          Download_and_extract ''../../data'' (Inr ''../../data/glove''),
          GenSenClassifier_new ''gensen_config.json'' ''../../data/glove'' learning_rate
            ''../../data'' None (Inr ()),
          Fit () 2 1 0 (Inr ()),
          Predict () sentences (Inr 2),
          Print banner,
          Print_results 2,
          Glue ''results'' 2 (Inr ())]\<rparr>)"
  by (simp add: notebook_defs demo_env_def default_params_def sentences_def)

text \<open>
  The run in which \<^verbatim>\<open>fit\<close> raises: \<^verbatim>\<open>%%time\<close> catches the exception, and the last cell runs
  as in the run above.
\<close>

lemma raising_fit_run_value:
  "notebook raising_fit_env default_params (init 0) =
     (Inr \<lparr>train = 2, dev = 1, test = 0, pretrained_embedding_path = ''../../data/glove'',
           clf = (), results = 2\<rparr>,
      \<lparr>world = 20,
       trace =
         [Print ''System version: 3.6.8'',
          Load_pandas_df ''../../data'' TRAIN None (Inr 3),
          Load_pandas_df ''../../data'' DEV None (Inr 2),
          Load_pandas_df ''../../data'' TEST None (Inr 1),
          Display 3,
          Clean_cols 3 (Inr 3), Clean_rows 3 (Inr 2), To_lowercase 2 (Inr 2),
          To_nltk_tokens 2 (Inr 2),
          Clean_cols 2 (Inr 2), Clean_rows 2 (Inr 1), To_lowercase 1 (Inr 1),
          To_nltk_tokens 1 (Inr 1),
          Clean_cols 1 (Inr 1), Clean_rows 1 (Inr 0), To_lowercase 0 (Inr 0),
          To_nltk_tokens 0 (Inr 0),
          Display 1,
          Download_and_extract ''../../data'' (Inr ''../../data/glove''),
          GenSenClassifier_new ''gensen_config.json'' ''../../data/glove'' learning_rate
            ''../../data'' None (Inr ()),
          Fit () 2 1 0 (Inl (Raised ''CUDA out of memory'')),
          Predict () sentences (Inr 2),
          Print banner,
          Print_results 2,
          Glue ''results'' 2 (Inr ())]\<rparr>)"
  by (simp add: notebook_defs raising_fit_env_def demo_env_def default_params_def sentences_def)





section \<open>The claims\<close>



text \<open>
  Claim C2. The run goes through its stages in the fixed order: loading the dataset,
  tokenizing and cleaning, instantiating the wrapper, \<^verbatim>\<open>fit\<close> and then \<^verbatim>\<open>predict\<close> on that
  wrapper, reporting the metric. In every run, whatever the collaborators do, the calls made
  are an initial part of the calls that the text of the notebook makes, in its order; call
  by call, their stages are an initial part of: three loads, twelve cleaning and tokenizing
  calls, the construction, \<^verbatim>\<open>fit\<close>, \<^verbatim>\<open>predict\<close>, two reports; so no stage is entered out of
  order or a second time, and no call of a stage is made twice. The calls recorded are the
  calls made: the trace replays on the world. In a run that reaches the end the stages are
  the whole list, none skipped, and the calls are exactly those of \<open>completed_trace\<close>: the
  three splits are loaded; each frame goes through \<^verbatim>\<open>clean_cols\<close>, \<^verbatim>\<open>clean_rows\<close>,
  \<^verbatim>\<open>to_lowercase\<close> and \<^verbatim>\<open>to_nltk_tokens\<close>, each on what the call before returned; \<^verbatim>\<open>fit\<close> and
  \<^verbatim>\<open>predict\<close> are called on the object that the constructor returned; what \<^verbatim>\<open>predict\<close>
  returned is printed and recorded.
\<close>

theorem notebook_stage_order:
  "prefix (map kind (trace (snd (notebook E p (init w))))) notebook_kinds \<and>
   prefix (stage_calls (trace (snd (notebook E p (init w))))) stage_plan \<and>
   prefix (stages (trace (snd (notebook E p (init w))))) all_stages \<and>
   replay E (trace (snd (notebook E p (init w)))) w =
     Some (world (snd (notebook E p (init w)))) \<and>
   (\<forall>g s'. notebook E p (init w) = (Inr g, s') \<longrightarrow>
      stage_calls (trace s') = stage_plan \<and> stages (trace s') = all_stages \<and>
      (\<exists>tr0 tr1 tr2 tr3 dv0 dv1 dv2 dv3 te0 te1 te2 te3 r.
         trace s' =
           completed_trace E p g (tr0, tr1, tr2, tr3) (dv0, dv1, dv2, dv3) (te0, te1, te2, te3)
             r))"
proof -
  have k: "prefix (map kind (trace (snd (notebook E p (init w))))) notebook_kinds"
    using notebook_any_run[of E p w] by simp
  from prefix_map_filter[OF k, where f = stage_of_kind]
  have c: "prefix (stage_calls (trace (snd (notebook E p (init w))))) stage_plan"
    by (simp add: stage_calls_def stage_calls_of_notebook_kinds)
  from prefix_stages_of_kinds[OF k]
  have s: "prefix (stages (trace (snd (notebook E p (init w))))) all_stages"
    by (simp add: stages_def stages_of_notebook_kinds)
  have e: "stage_calls (trace s') = stage_plan \<and> stages (trace s') = all_stages \<and>
      (\<exists>tr0 tr1 tr2 tr3 dv0 dv1 dv2 dv3 te0 te1 te2 te3 r.
         trace s' =
           completed_trace E p g (tr0, tr1, tr2, tr3) (dv0, dv1, dv2, dv3) (te0, te1, te2, te3)
             r)"
    if run: "notebook E p (init w) = (Inr g, s')" for g s'
  proof -
    from completed_kinds[OF run] have 1: "stage_calls (trace s') = stage_plan"
      and 2: "stages (trace s') = all_stages"
      by (simp_all add: stage_calls_def stage_calls_of_notebook_kinds stages_def
          stages_of_notebook_kinds)
    from notebook_completed[OF run] have 3:
      "\<exists>tr0 tr1 tr2 tr3 dv0 dv1 dv2 dv3 te0 te1 te2 te3 r.
         trace s' =
           completed_trace E p g (tr0, tr1, tr2, tr3) (dv0, dv1, dv2, dv3) (te0, te1, te2, te3)
             r"
      by (simp add: init_def)
    from 1 2 3 show ?thesis by simp
  qed
  from k c s notebook_trace_replays[of E p w] e show ?thesis by blast
qed

theorem notebook_stage_order_witness:
  "\<not> isl (fst demo_run) \<and> stage_calls (trace (snd demo_run)) = stage_plan \<and>
   stages (trace (snd demo_run)) = all_stages \<and>
   (\<exists>tr0 tr1 tr2 tr3 dv0 dv1 dv2 dv3 te0 te1 te2 te3 r.
      trace (snd demo_run) =
        completed_trace demo_env default_params (projr (fst demo_run))
          (tr0, tr1, tr2, tr3) (dv0, dv1, dv2, dv3) (te0, te1, te2, te3) r)"
proof -
  note T = notebook_stage_order[of demo_env default_params 0]
  from T[THEN conjunct2, THEN conjunct2, THEN conjunct2, THEN conjunct2, rule_format,
      OF demo_run_value]
  show ?thesis unfolding demo_run_def demo_run_value by simp
qed




text \<open>
  Claim C4. As stated, every call of an imported function goes through the three
  collaborators the specification names (the SNLI loader and cleaner, the word-vector
  downloader, the model wrapper). The sample run refutes that: it calls
  \<^verbatim>\<open>preprocess.to_lowercase\<close>, \<^verbatim>\<open>preprocess.to_nltk_tokens\<close> and \<^verbatim>\<open>sb.glue\<close> as well.
\<close>

theorem three_collaborators_counterexample:
  "\<not> list_all via_three_collaborators (external_calls (trace (snd demo_run)))"
  by (simp add: demo_run_def demo_run_value external_calls_def)

text \<open>
  Claim C4, amended. In every run, the calls of imported functions are an initial part of:
  three loads; \<^verbatim>\<open>clean_cols\<close>, \<^verbatim>\<open>clean_rows\<close>, \<^verbatim>\<open>to_lowercase\<close>, \<^verbatim>\<open>to_nltk_tokens\<close> for each of
  the three frames; one \<^verbatim>\<open>download_and_extract\<close>; one construction of the wrapper, one
  \<^verbatim>\<open>fit\<close>, one \<^verbatim>\<open>predict\<close>; one \<^verbatim>\<open>sb.glue\<close>. Each of them goes through one of the three
  collaborators, or is one of the two preprocessing functions or scrapbook's \<^verbatim>\<open>glue\<close>; the
  wrapper is used through its constructor, \<^verbatim>\<open>fit\<close> and \<^verbatim>\<open>predict\<close> only. A run that reaches
  the end makes all of these calls.
\<close>

theorem external_calls_of_notebook:
  "prefix (external_calls (trace (snd (notebook E p (init w))))) notebook_external_calls \<and>
   list_all (\<lambda>k. via_three_collaborators k \<or> via_preprocess_or_scrapbook k)
     (external_calls (trace (snd (notebook E p (init w))))) \<and>
   (\<forall>g s'. notebook E p (init w) = (Inr g, s') \<longrightarrow>
      external_calls (trace s') = notebook_external_calls)"
proof -
  have "prefix (map kind (trace (snd (notebook E p (init w))))) notebook_kinds"
    using notebook_any_run[of E p w] by simp
  then obtain zs where
    z: "notebook_kinds = map kind (trace (snd (notebook E p (init w)))) @ zs"
    by (auto simp: prefix_def)
  then have e: "notebook_external_calls =
      external_calls (trace (snd (notebook E p (init w)))) @ filter (\<lambda>k. \<not> output_kind k) zs"
    unfolding external_calls_def using notebook_kinds_without_output by (metis filter_append)
  then have 1: "prefix (external_calls (trace (snd (notebook E p (init w))))) notebook_external_calls"
    by (metis prefixI)
  have "list_all (\<lambda>k. via_three_collaborators k \<or> via_preprocess_or_scrapbook k)
          notebook_external_calls"
    by (simp add: notebook_external_calls_def clean_and_tokenize_kinds_def)
  with e have 2: "list_all (\<lambda>k. via_three_collaborators k \<or> via_preprocess_or_scrapbook k)
     (external_calls (trace (snd (notebook E p (init w)))))"
    by (metis list_all_append)
  have 3: "external_calls (trace s') = notebook_external_calls"
    if "notebook E p (init w) = (Inr g, s')" for g s'
    using completed_kinds[OF that] notebook_kinds_without_output
    by (simp add: external_calls_def)
  from 1 2 3 show ?thesis by blast
qed

theorem external_calls_of_notebook_witness:
  "\<not> isl (fst demo_run) \<and> external_calls (trace (snd demo_run)) = notebook_external_calls"
  using external_calls_of_notebook[of demo_env default_params 0] demo_run_value
  by (simp add: demo_run_def)

text \<open>
  Claim C5. Between \<^verbatim>\<open>clean_and_tokenize\<close> and \<^verbatim>\<open>clf.fit(train, dev, test)\<close> the notebook
  does not touch the three frames. In a run that reaches the end, from the state \<open>s4\<close> in
  which the third \<^verbatim>\<open>clean_and_tokenize\<close> returned, the calls are: showing \<^verbatim>\<open>dev.head()\<close>,
  \<^verbatim>\<open>download_and_extract\<close>, the construction of the wrapper, and \<^verbatim>\<open>fit\<close> on exactly the three
  frames that the three calls of \<^verbatim>\<open>clean_and_tokenize\<close> returned; then \<^verbatim>\<open>predict\<close>, the two
  prints and \<^verbatim>\<open>sb.glue\<close>. Training and inference are the wrapper's: \<^verbatim>\<open>fit\<close> is the
  collaborator's function, run on the world that the construction left, and whatever its
  outcome \<open>r\<close> is (it may raise: \<^verbatim>\<open>%%time\<close> catches the exception), \<^verbatim>\<open>results\<close> is what the
  collaborator's \<^verbatim>\<open>predict\<close> returned on the world that \<^verbatim>\<open>fit\<close> left. The notebook computes
  nothing of its own in between.
\<close>

theorem fit_receives_tokenized_frames:
  assumes "notebook E p (init w) = (Inr g, s')"
  shows "\<exists>tr0 dv0 te0 s0 s1 s2 s3 s4 r w1 w2 w3 w4.
           cell_imports E (init w) = (Inr (), s0) \<and>
           cell_load E p s0 = (Inr (tr0, dv0, te0), s1) \<and>
           clean_and_tokenize E tr0 s1 = (Inr (train g), s2) \<and>
           clean_and_tokenize E dv0 s2 = (Inr (dev g), s3) \<and>
           clean_and_tokenize E te0 s3 = (Inr (test g), s4) \<and>
           download_and_extract E (base_data_path p) (world s4) =
             (Inr (pretrained_embedding_path g), w1) \<and>
           GenSenClassifier E (config_filepath p) (pretrained_embedding_path g) learning_rate
             (base_data_path p) (max_epoch p) w1 = (Inr (clf g), w2) \<and>
           fit E (clf g) (train g) (dev g) (test g) w2 = (r, w3) \<and>
           predict E (clf g) sentences w3 = (Inr (results g), w4) \<and>
           glue E ''results'' (to_dict E (results g)) w4 = (Inr (), world s') \<and>
           trace s' = trace s4 @
             [Display (df_head E (dev g)),
              Download_and_extract (base_data_path p) (Inr (pretrained_embedding_path g)),
              GenSenClassifier_new (config_filepath p) (pretrained_embedding_path g)
                learning_rate (base_data_path p) (max_epoch p) (Inr (clf g)),
              Fit (clf g) (train g) (dev g) (test g) r,
              Predict (clf g) sentences (Inr (results g)),
              Print banner,
              Print_results (results g),
              Glue ''results'' (to_dict E (results g)) (Inr ())]"
proof -
  from notebook_model_calls[OF assms] obtain tr0 dv0 te0 s0 s1 s2 s3 s4 r w1 w2 w3 w4 where
    "cell_imports E (init w) = (Inr (), s0)"
    "cell_load E p s0 = (Inr (tr0, dv0, te0), s1)"
    "clean_and_tokenize E tr0 s1 = (Inr (train g), s2)"
    "clean_and_tokenize E dv0 s2 = (Inr (dev g), s3)"
    "clean_and_tokenize E te0 s3 = (Inr (test g), s4)"
    "download_and_extract E (base_data_path p) (world s4) =
       (Inr (pretrained_embedding_path g), w1)"
    "GenSenClassifier E (config_filepath p) (pretrained_embedding_path g) learning_rate
       (base_data_path p) (max_epoch p) w1 = (Inr (clf g), w2)"
    "fit E (clf g) (train g) (dev g) (test g) w2 = (r, w3)"
    "predict E (clf g) sentences w3 = (Inr (results g), w4)"
    "glue E ''results'' (to_dict E (results g)) w4 = (Inr (), world s')"
    "trace s' = trace s4 @
       [Display (df_head E (dev g)),
        Download_and_extract (base_data_path p) (Inr (pretrained_embedding_path g)),
        GenSenClassifier_new (config_filepath p) (pretrained_embedding_path g)
          learning_rate (base_data_path p) (max_epoch p) (Inr (clf g)),
        Fit (clf g) (train g) (dev g) (test g) r,
        Predict (clf g) sentences (Inr (results g)),
        Print banner,
        Print_results (results g),
        Glue ''results'' (to_dict E (results g)) (Inr ())]"
    by blast
  then show ?thesis
    by - (rule exI[of _ tr0], rule exI[of _ dv0], rule exI[of _ te0], rule exI[of _ s0],
        rule exI[of _ s1], rule exI[of _ s2], rule exI[of _ s3], rule exI[of _ s4],
        rule exI[of _ r], rule exI[of _ w1], rule exI[of _ w2], rule exI[of _ w3],
        rule exI[of _ w4], simp)
qed

theorem fit_receives_tokenized_frames_witness:
  "\<exists>(s4 :: (nat, unit, nat, nat, nat) st) w2 w3 w4.
     fit raising_fit_env () 2 1 0 w2 = (Inl (Raised ''CUDA out of memory''), w3) \<and>
     predict raising_fit_env () sentences w3 = (Inr 2, w4) \<and>
     trace (snd raising_fit_run) = trace s4 @
       [Display 1,
        Download_and_extract ''../../data'' (Inr ''../../data/glove''),
        GenSenClassifier_new ''gensen_config.json'' ''../../data/glove'' learning_rate
          ''../../data'' None (Inr ()),
        Fit () 2 1 0 (Inl (Raised ''CUDA out of memory'')),
        Predict () sentences (Inr 2),
        Print banner,
        Print_results 2,
        Glue ''results'' 2 (Inr ())]"
proof -
  from fit_receives_tokenized_frames[of raising_fit_env default_params 0,
      OF raising_fit_run_value]
  obtain s4 :: "(nat, unit, nat, nat, nat) st" and r w2 w3 w4 where
    f: "fit raising_fit_env () 2 1 0 w2 = (r, w3)" and
    p: "predict raising_fit_env () sentences w3 = (Inr 2, w4)" and
    t: "trace (snd raising_fit_run) = trace s4 @
       [Display (df_head raising_fit_env 1),
        Download_and_extract ''../../data'' (Inr ''../../data/glove''),
        GenSenClassifier_new ''gensen_config.json'' ''../../data/glove'' learning_rate
          ''../../data'' None (Inr ()),
        Fit () 2 1 0 r,
        Predict () sentences (Inr 2),
        Print banner,
        Print_results 2,
        Glue ''results'' (to_dict raising_fit_env 2) (Inr ())]"
    unfolding raising_fit_run_def raising_fit_run_value
    by (auto simp: default_params_def)
  from f have r: "r = Inl (Raised ''CUDA out of memory'')"
    by (simp add: raising_fit_env_def)
  have h: "df_head raising_fit_env 1 = 1" "to_dict raising_fit_env 2 = 2"
    by (simp_all add: raising_fit_env_def demo_env_def)
  from f p t show ?thesis
    unfolding r h
    by - (rule exI[of _ s4], rule exI[of _ w2], rule exI[of _ w3], rule exI[of _ w4], simp)
qed

text \<open>
  Claim C6. In a run that reaches the end, \<^verbatim>\<open>snli.load_pandas_df\<close> has been called exactly
  three times, for \<^verbatim>\<open>TRAIN\<close>, \<^verbatim>\<open>DEV\<close> and \<^verbatim>\<open>TEST\<close> in that order, each time with the same
  \<^verbatim>\<open>base_data_path\<close> and the same \<^verbatim>\<open>nrows\<close>, and each call returned a frame.
\<close>

theorem loads_three_splits:
  assumes "notebook E p (init w) = (Inr g, s')"
  shows "\<exists>tr0 dv0 te0.
           load_calls (trace s') =
             [Load_pandas_df (base_data_path p) TRAIN (nrows p) (Inr tr0),
              Load_pandas_df (base_data_path p) DEV (nrows p) (Inr dv0),
              Load_pandas_df (base_data_path p) TEST (nrows p) (Inr te0)]"
proof -
  from notebook_completed[OF assms] obtain tr0 tr1 tr2 tr3 dv0 dv1 dv2 dv3 te0 te1 te2 te3 r where
    "trace s' = trace (init w) @
       completed_trace E p g (tr0, tr1, tr2, tr3) (dv0, dv1, dv2, dv3) (te0, te1, te2, te3) r"
    by blast
  then have "load_calls (trace s') =
             [Load_pandas_df (base_data_path p) TRAIN (nrows p) (Inr tr0),
              Load_pandas_df (base_data_path p) DEV (nrows p) (Inr dv0),
              Load_pandas_df (base_data_path p) TEST (nrows p) (Inr te0)]"
    by (simp add: init_def completed_trace_def tokenize_events_def load_calls_def)
  then show ?thesis by blast
qed

theorem loads_three_splits_witness:
  "load_calls (trace (snd demo_run)) =
     [Load_pandas_df ''../../data'' TRAIN None (Inr 3),
      Load_pandas_df ''../../data'' DEV None (Inr 2),
      Load_pandas_df ''../../data'' TEST None (Inr 1)]"
  using loads_three_splits[of demo_env default_params 0, OF demo_run_value] demo_run_value
  by (simp add: demo_run_def load_calls_def)









end
